theory Spec2Isabelle
  imports Complex_Main "HOL-Library.AList"
begin

section \<open>JavaScript values used by the bot\<close>

text \<open>
  A JavaScript \<open>number\<close> is modelled as a real number extended by the two infinities and
  NaN. Arithmetic on finite values is exact: rounding to the nearest double and overflow
  of a finite result are not modelled, and the sign of zero is not distinguished (every
  zero divisor that occurs below is \<open>Number\<close> of a bigint, which is \<open>+0\<close>).
  Comparisons with NaN are false, as in the language.
\<close>

datatype jsnum = Fin real | PosInf | NegInf | NaN

fun js_neg :: "jsnum \<Rightarrow> jsnum" where
  "js_neg (Fin x) = Fin (- x)"
| "js_neg PosInf = NegInf"
| "js_neg NegInf = PosInf"
| "js_neg NaN = NaN"

fun js_sub :: "jsnum \<Rightarrow> jsnum \<Rightarrow> jsnum" where
  "js_sub NaN _ = NaN"
| "js_sub _ NaN = NaN"
| "js_sub (Fin x) (Fin y) = Fin (x - y)"
| "js_sub (Fin _) PosInf = NegInf"
| "js_sub (Fin _) NegInf = PosInf"
| "js_sub PosInf (Fin _) = PosInf"
| "js_sub NegInf (Fin _) = NegInf"
| "js_sub PosInf NegInf = PosInf"
| "js_sub NegInf PosInf = NegInf"
| "js_sub PosInf PosInf = NaN"
| "js_sub NegInf NegInf = NaN"

fun js_mul :: "jsnum \<Rightarrow> jsnum \<Rightarrow> jsnum" where
  "js_mul NaN _ = NaN"
| "js_mul _ NaN = NaN"
| "js_mul (Fin x) (Fin y) = Fin (x * y)"
| "js_mul (Fin x) PosInf = (if x = 0 then NaN else if 0 < x then PosInf else NegInf)"
| "js_mul (Fin x) NegInf = (if x = 0 then NaN else if 0 < x then NegInf else PosInf)"
| "js_mul PosInf (Fin y) = (if y = 0 then NaN else if 0 < y then PosInf else NegInf)"
| "js_mul NegInf (Fin y) = (if y = 0 then NaN else if 0 < y then NegInf else PosInf)"
| "js_mul PosInf PosInf = PosInf"
| "js_mul NegInf NegInf = PosInf"
| "js_mul PosInf NegInf = NegInf"
| "js_mul NegInf PosInf = NegInf"

fun js_div :: "jsnum \<Rightarrow> jsnum \<Rightarrow> jsnum" where
  "js_div NaN _ = NaN"
| "js_div _ NaN = NaN"
| "js_div (Fin x) (Fin y) =
     (if y = 0 then (if x = 0 then NaN else if 0 < x then PosInf else NegInf)
      else Fin (x / y))"
| "js_div (Fin _) PosInf = Fin 0"
| "js_div (Fin _) NegInf = Fin 0"
| "js_div PosInf (Fin y) = (if 0 \<le> y then PosInf else NegInf)"
| "js_div NegInf (Fin y) = (if 0 \<le> y then NegInf else PosInf)"
| "js_div PosInf PosInf = NaN"
| "js_div PosInf NegInf = NaN"
| "js_div NegInf PosInf = NaN"
| "js_div NegInf NegInf = NaN"

fun js_lt :: "jsnum \<Rightarrow> jsnum \<Rightarrow> bool" where
  "js_lt NaN _ = False"
| "js_lt _ NaN = False"
| "js_lt (Fin x) (Fin y) = (x < y)"
| "js_lt (Fin _) PosInf = True"
| "js_lt (Fin _) NegInf = False"
| "js_lt PosInf _ = False"
| "js_lt NegInf (Fin _) = True"
| "js_lt NegInf PosInf = True"
| "js_lt NegInf NegInf = False"

fun js_le :: "jsnum \<Rightarrow> jsnum \<Rightarrow> bool" where
  "js_le NaN _ = False"
| "js_le _ NaN = False"
| "js_le (Fin x) (Fin y) = (x \<le> y)"
| "js_le (Fin _) PosInf = True"
| "js_le (Fin _) NegInf = False"
| "js_le PosInf (Fin _) = False"
| "js_le PosInf PosInf = True"
| "js_le PosInf NegInf = False"
| "js_le NegInf _ = True"

definition js_gt :: "jsnum \<Rightarrow> jsnum \<Rightarrow> bool" where
  "js_gt a b = js_lt b a"

definition js_ge :: "jsnum \<Rightarrow> jsnum \<Rightarrow> bool" where
  "js_ge a b = js_le b a"

text \<open>Truthiness of a number: \<open>0\<close> and NaN are falsy.\<close>

fun js_truthy :: "jsnum \<Rightarrow> bool" where
  "js_truthy (Fin x) = (x \<noteq> 0)"
| "js_truthy PosInf = True"
| "js_truthy NegInf = True"
| "js_truthy NaN = False"

text \<open>\<open>x || 0\<close> on a possibly missing number.\<close>

fun or_zero :: "jsnum option \<Rightarrow> jsnum" where
  "or_zero None = Fin 0"
| "or_zero (Some x) = (if js_truthy x then x else Fin 0)"

text \<open>\<open>Number(b)\<close> of a bigint and \<open>Math.pow(10, k)\<close> for an integer exponent.\<close>

definition Number :: "int \<Rightarrow> jsnum" where
  "Number b = Fin (of_int b)"

definition pow10 :: "int \<Rightarrow> jsnum" where
  "pow10 k = (if 0 \<le> k then Fin (10 ^ nat k) else Fin (1 / 10 ^ nat (- k)))"

text \<open>
  A \<open>bigint\<close> is an unbounded integer; its division truncates towards zero and raises a
  RangeError on a zero divisor.
\<close>

datatype js_error = RangeError | Thrown string

definition bigint_quot :: "int \<Rightarrow> int \<Rightarrow> int" where
  "bigint_quot a b = sgn a * sgn b * (\<bar>a\<bar> div \<bar>b\<bar>)"

definition bigint_div :: "int \<Rightarrow> int \<Rightarrow> js_error + int" where
  "bigint_div a b = (if b = 0 then Inl RangeError else Inr (bigint_quot a b))"

text \<open>\<open>xs.slice(-n)\<close> for an integer \<open>n\<close>; \<open>slice(-0)\<close> is \<open>slice(0)\<close>.\<close>

definition slice_neg :: "int \<Rightarrow> 'a list \<Rightarrow> 'a list" where
  "slice_neg n xs =
     (if 0 < n then drop (nat (max (int (length xs) - n) 0)) xs
      else drop (nat (min (- n) (int (length xs)))) xs)"

section \<open>Types of the PumpSwap client (pumpswap/types.ts, pumpswap/constants.ts)\<close>

datatype StrategyType = MOMENTUM | VOLUME | LIQUIDITY | CUSTOM

text \<open>
  Public keys are identified with their base58 strings; times are milliseconds. The field
  \<open>poolId\<close> of a position is \<open>pos_poolId\<close> here, the pool snapshot having a field of
  that name.
\<close>

datatype PoolState = UNINITIALIZED | INITIALIZED | ACTIVE | PAUSED | CLOSED

record PumpSwapPoolInfo =
  poolId :: string
  baseMint :: string
  quoteMint :: string
  baseVault :: string
  quoteVault :: string
  lpMint :: string
  baseDecimals :: nat
  quoteDecimals :: nat
  state :: PoolState
  baseReserve :: int
  quoteReserve :: int
  lpSupply :: int
  createdAt :: int

record Position =
  mint :: string
  pos_poolId :: string
  entryPrice :: jsnum
  amount :: int
  buyValue :: jsnum
  timestamp :: int
  strategy :: StrategyType

definition MAX_CONCURRENT_POSITIONS :: nat where
  "MAX_CONCURRENT_POSITIONS = 5"

section \<open>External responses\<close>

text \<open>
  The market-data lookups and the chain are outside the program. Each call is modelled by
  the response it receives: \<open>retrieveTokenValueByAddress\<close> throws, or returns
  \<open>undefined\<close> or a number; \<open>fetchTokenData\<close> returns the pair record of the token or
  nothing; \<open>Date.now()\<close> returns the time.
\<close>

record token_data =
  volume_h24 :: "jsnum option"
  volume_h6 :: "jsnum option"
  volume_h1 :: "jsnum option"
  liquidity_usd :: "jsnum option"
  priceChange_h1 :: "jsnum option"

record market_env =
  price_resp :: "js_error + jsnum option"
  token_resp :: "token_data option"
  now :: int

section \<open>Momentum strategy (strategies/momentum.ts)\<close>

record momentum_cfg =
  momentumThreshold :: jsnum
  lookbackPeriod :: int
  m_takeProfitPercent :: jsnum
  m_stopLossPercent :: jsnum

definition momentum_default :: momentum_cfg where
  "momentum_default =
     \<lparr>momentumThreshold = Fin 10, lookbackPeriod = 5,
      m_takeProfitPercent = Fin 50, m_stopLossPercent = Fin 30\<rparr>"

type_synonym price_history = "string \<rightharpoonup> jsnum list"

definition history_of :: "price_history \<Rightarrow> string \<Rightarrow> jsnum list" where
  "history_of h m = (case h m of None \<Rightarrow> [] | Some xs \<Rightarrow> xs)"

definition percent_change :: "jsnum \<Rightarrow> jsnum \<Rightarrow> jsnum" where
  "percent_change current base = js_mul (js_div (js_sub current base) base) (Fin 100)"

definition MomentumStrategy_shouldBuy ::
  "momentum_cfg \<Rightarrow> market_env \<Rightarrow> price_history \<Rightarrow> PumpSwapPoolInfo \<Rightarrow> bool \<times> price_history"
where
  "MomentumStrategy_shouldBuy c env h poolInfo =
     (let mintAddress = baseMint poolInfo in
      case price_resp env of
        Inl e \<Rightarrow> (False, h)
      | Inr None \<Rightarrow> (False, h)
      | Inr (Some currentPrice) \<Rightarrow>
          if \<not> js_truthy currentPrice then (False, h)
          else
            let pushed = history_of h mintAddress @ [currentPrice];
                history = (if int (length pushed) > lookbackPeriod c
                           then slice_neg (lookbackPeriod c) pushed else pushed);
                h' = h(mintAddress \<mapsto> history)
            in if length history < 2 then (False, h')
               else
                 let oldestPrice = history ! 0;
                     momentum = percent_change currentPrice oldestPrice
                 in if js_ge momentum (momentumThreshold c)
                    then
                      let recentPrice = history ! (length history - 2);
                          recentMomentum = percent_change currentPrice recentPrice
                      in (js_gt recentMomentum (Fin 0), h')
                    else (False, h'))"

text \<open>\<open>arr.every((price, idx, arr) => idx === 0 || price < arr[idx - 1])\<close>\<close>

fun every_below_previous :: "jsnum list \<Rightarrow> bool" where
  "every_below_previous [] = True"
| "every_below_previous [x] = True"
| "every_below_previous (x # y # r) = (js_lt y x \<and> every_below_previous (y # r))"

definition MomentumStrategy_shouldSell ::
  "momentum_cfg \<Rightarrow> price_history \<Rightarrow> Position \<Rightarrow> jsnum \<Rightarrow> bool"
where
  "MomentumStrategy_shouldSell c h position currentPrice =
     (if \<not> js_truthy (buyValue position) \<or> currentPrice = Fin 0 then False
      else
        let priceChange = percent_change currentPrice (buyValue position) in
        if js_ge priceChange (m_takeProfitPercent c) then True
        else if js_le priceChange (js_neg (m_stopLossPercent c)) then True
        else
          let history = history_of h (mint position) in
          if length history \<ge> 3
             \<and> every_below_previous (slice_neg 3 history) \<and> js_gt priceChange (Fin 0)
          then True
          else False)"

definition MomentumStrategy_calculatePositionSize :: "PumpSwapPoolInfo \<Rightarrow> int" where
  "MomentumStrategy_calculatePositionSize poolInfo =
     (let maxPositionSize = bigint_quot (quoteReserve poolInfo) 100;
          minPositionSize = 10000000
      in if maxPositionSize > minPositionSize then maxPositionSize else minPositionSize)"

section \<open>Volume strategy (strategies/volume.ts)\<close>

record volume_cfg =
  minVolume24h :: jsnum
  minLiquidityUSD :: jsnum
  v_takeProfitPercent :: jsnum
  v_stopLossPercent :: jsnum
  volumeDeclineThreshold :: jsnum

definition volume_default :: volume_cfg where
  "volume_default =
     \<lparr>minVolume24h = Fin 10000, minLiquidityUSD = Fin 5000,
      v_takeProfitPercent = Fin 50, v_stopLossPercent = Fin 30,
      volumeDeclineThreshold = Fin 50\<rparr>"

definition VolumeStrategy_shouldBuy ::
  "volume_cfg \<Rightarrow> market_env \<Rightarrow> PumpSwapPoolInfo \<Rightarrow> bool"
where
  "VolumeStrategy_shouldBuy c env poolInfo =
     (case token_resp env of
        None \<Rightarrow> False
      | Some tokenData \<Rightarrow>
          let volume24h = or_zero (volume_h24 tokenData) in
          if js_lt volume24h (minVolume24h c) then False
          else
            let liquidityUSD = or_zero (liquidity_usd tokenData) in
            if js_lt liquidityUSD (minLiquidityUSD c) then False
            else
              let volume1h = or_zero (volume_h1 tokenData);
                  volume6h = or_zero (volume_h6 tokenData);
                  avgHourlyVolume6h = js_div volume6h (Fin 6);
                  isVolumeIncreasing = js_gt volume1h (js_mul avgHourlyVolume6h (Fin (3 / 2)));
                  priceChange1h = or_zero (priceChange_h1 tokenData);
                  isPricePositive = js_gt priceChange1h (Fin 0)
              in isVolumeIncreasing \<and> isPricePositive)"

definition VolumeStrategy_shouldSell ::
  "volume_cfg \<Rightarrow> market_env \<Rightarrow> Position \<Rightarrow> jsnum \<Rightarrow> bool"
where
  "VolumeStrategy_shouldSell c env position currentPrice =
     (if \<not> js_truthy (buyValue position) \<or> currentPrice = Fin 0 then False
      else
        let priceChange = percent_change currentPrice (buyValue position) in
        if js_ge priceChange (v_takeProfitPercent c) then True
        else if js_le priceChange (js_neg (v_stopLossPercent c)) then True
        else
          case token_resp env of
            None \<Rightarrow> False
          | Some tokenData \<Rightarrow>
              let volume1h = or_zero (volume_h1 tokenData);
                  volume6h = or_zero (volume_h6 tokenData);
                  avgHourlyVolume6h = js_div volume6h (Fin 6)
              in if js_lt volume1h
                      (js_mul avgHourlyVolume6h
                         (js_sub (Fin 1) (js_div (volumeDeclineThreshold c) (Fin 100))))
                 then True
                 else
                   let priceChange1h = or_zero (priceChange_h1 tokenData) in
                   if js_lt priceChange1h (Fin (- 5)) \<and> js_gt volume1h avgHourlyVolume6h
                   then True
                   else False)"

definition VolumeStrategy_calculatePositionSize :: "PumpSwapPoolInfo \<Rightarrow> int" where
  "VolumeStrategy_calculatePositionSize poolInfo =
     (let positionSize = bigint_quot (quoteReserve poolInfo) 50;
          minPositionSize = 10000000;
          maxPositionSize = 1000000000
      in if positionSize < minPositionSize then minPositionSize
         else if positionSize > maxPositionSize then maxPositionSize
         else positionSize)"

section \<open>Liquidity strategy (strategies/liquidity.ts)\<close>

record liquidity_cfg =
  minLiquiditySOL :: jsnum
  maxPriceImpact :: jsnum
  l_takeProfitPercent :: jsnum
  l_stopLossPercent :: jsnum
  liquidityGrowthThreshold :: jsnum

definition liquidity_default :: liquidity_cfg where
  "liquidity_default =
     \<lparr>minLiquiditySOL = Fin 10, maxPriceImpact = Fin 2,
      l_takeProfitPercent = Fin 30, l_stopLossPercent = Fin 20,
      liquidityGrowthThreshold = Fin 20\<rparr>"

definition calculatePriceImpact :: "int \<Rightarrow> int \<Rightarrow> int \<Rightarrow> js_error + jsnum" where
  "calculatePriceImpact amountIn reserveIn reserveOut =
     (if reserveIn = 0 \<or> reserveOut = 0 then Inr (Fin 100)
      else
        let amountInWithFee = amountIn * 9975;
            numerator = amountInWithFee * reserveOut;
            denominator = reserveIn * 10000 + amountInWithFee
        in case bigint_div numerator denominator of
             Inl e \<Rightarrow> Inl e
           | Inr amountOut \<Rightarrow>
               (case bigint_div (amountIn * reserveOut) reserveIn of
                  Inl e \<Rightarrow> Inl e
                | Inr exactQuote \<Rightarrow>
                    Inr (js_mul (js_div (Number (exactQuote - amountOut)) (Number exactQuote))
                           (Fin 100))))"

definition LiquidityStrategy_shouldBuy ::
  "liquidity_cfg \<Rightarrow> market_env \<Rightarrow> PumpSwapPoolInfo \<Rightarrow> bool"
where
  "LiquidityStrategy_shouldBuy c env poolInfo =
     (let liquiditySOL =
            js_div (Number (quoteReserve poolInfo)) (pow10 (int (quoteDecimals poolInfo)))
      in if js_lt liquiditySOL (minLiquiditySOL c) then False
         else
           case calculatePriceImpact 100000000 (quoteReserve poolInfo) (baseReserve poolInfo) of
             Inl e \<Rightarrow> False
           | Inr priceImpact \<Rightarrow>
               if js_gt priceImpact (maxPriceImpact c) then False
               else
                 let poolAge = now env - createdAt poolInfo;
                     isNewPool = (poolAge < 24 * 60 * 60 * 1000)
                 in if isNewPool \<and> js_lt liquiditySOL (js_mul (minLiquiditySOL c) (Fin 2))
                    then False
                    else
                      let liquidityRatio =
                            js_div (Number (quoteReserve poolInfo))
                                   (Number (baseReserve poolInfo))
                      in js_gt liquidityRatio (Fin (1 / 1000))
                         \<and> js_lt liquidityRatio (Fin 1000))"

definition LiquidityStrategy_shouldSell ::
  "liquidity_cfg \<Rightarrow> market_env \<Rightarrow> Position \<Rightarrow> jsnum \<Rightarrow> bool"
where
  "LiquidityStrategy_shouldSell c env position currentPrice =
     (if \<not> js_truthy (buyValue position) \<or> currentPrice = Fin 0 then False
      else
        let priceChange = percent_change currentPrice (buyValue position) in
        if js_ge priceChange (l_takeProfitPercent c) then True
        else if js_le priceChange (js_neg (l_stopLossPercent c)) then True
        else
          let holdTime = now env - timestamp position;
              oneHour = 60 * 60 * 1000
          in if holdTime > oneHour \<and> js_lt priceChange (Fin 5) then True else False)"

definition LiquidityStrategy_calculatePositionSize :: "PumpSwapPoolInfo \<Rightarrow> int" where
  "LiquidityStrategy_calculatePositionSize poolInfo =
     (let positionSize = bigint_quot (quoteReserve poolInfo) 200;
          minPositionSize = 10000000;
          maxPositionSize = 500000000
      in if positionSize < minPositionSize then minPositionSize
         else if positionSize > maxPositionSize then maxPositionSize
         else positionSize)"

section \<open>Strategy interface and strategy manager (strategies/strategy-manager.ts)\<close>

text \<open>
  A \<open>TradingStrategy\<close> is an object with three methods. Each method may throw, so it
  returns an error or a value, together with the new private state of the strategy.
\<close>

record 's TradingStrategy =
  stype :: StrategyType
  shouldBuy :: "market_env \<Rightarrow> 's \<Rightarrow> PumpSwapPoolInfo \<Rightarrow> (js_error + bool) \<times> 's"
  shouldSell :: "market_env \<Rightarrow> 's \<Rightarrow> Position \<Rightarrow> jsnum \<Rightarrow> (js_error + bool) \<times> 's"
  calculatePositionSize :: "'s \<Rightarrow> PumpSwapPoolInfo \<Rightarrow> (js_error + int) \<times> 's"

text \<open>
  The three classes as such objects. Their own \<open>try\<close>/\<open>catch\<close> blocks are part of the
  functions above, so they never throw; only the momentum strategy has state.
\<close>

definition MomentumStrategy :: "momentum_cfg \<Rightarrow> price_history TradingStrategy" where
  "MomentumStrategy c =
     \<lparr>stype = MOMENTUM,
      shouldBuy = (\<lambda>env h poolInfo.
         case MomentumStrategy_shouldBuy c env h poolInfo of (b, h') \<Rightarrow> (Inr b, h')),
      shouldSell = (\<lambda>env h position currentPrice.
         (Inr (MomentumStrategy_shouldSell c h position currentPrice), h)),
      calculatePositionSize = (\<lambda>h poolInfo.
         (Inr (MomentumStrategy_calculatePositionSize poolInfo), h))\<rparr>"

definition VolumeStrategy :: "volume_cfg \<Rightarrow> price_history TradingStrategy" where
  "VolumeStrategy c =
     \<lparr>stype = VOLUME,
      shouldBuy = (\<lambda>env h poolInfo. (Inr (VolumeStrategy_shouldBuy c env poolInfo), h)),
      shouldSell = (\<lambda>env h position currentPrice.
         (Inr (VolumeStrategy_shouldSell c env position currentPrice), h)),
      calculatePositionSize = (\<lambda>h poolInfo.
         (Inr (VolumeStrategy_calculatePositionSize poolInfo), h))\<rparr>"

definition LiquidityStrategy :: "liquidity_cfg \<Rightarrow> price_history TradingStrategy" where
  "LiquidityStrategy c =
     \<lparr>stype = LIQUIDITY,
      shouldBuy = (\<lambda>env h poolInfo. (Inr (LiquidityStrategy_shouldBuy c env poolInfo), h)),
      shouldSell = (\<lambda>env h position currentPrice.
         (Inr (LiquidityStrategy_shouldSell c env position currentPrice), h)),
      calculatePositionSize = (\<lambda>h poolInfo.
         (Inr (LiquidityStrategy_calculatePositionSize poolInfo), h))\<rparr>"

record 's StrategyManager =
  strategies :: "StrategyType \<rightharpoonup> 's TradingStrategy"
  activeStrategy :: StrategyType

definition initializeStrategies :: "StrategyType \<rightharpoonup> price_history TradingStrategy" where
  "initializeStrategies =
     [MOMENTUM \<mapsto> MomentumStrategy momentum_default,
      VOLUME \<mapsto> VolumeStrategy volume_default,
      LIQUIDITY \<mapsto> LiquidityStrategy liquidity_default]"

definition new_StrategyManager :: "StrategyType \<Rightarrow> price_history StrategyManager" where
  "new_StrategyManager initialStrategy =
     \<lparr>strategies = initializeStrategies, activeStrategy = initialStrategy\<rparr>"

definition setActiveStrategy :: "StrategyType \<Rightarrow> 's StrategyManager \<Rightarrow> 's StrategyManager" where
  "setActiveStrategy strategyType m =
     (if strategyType \<in> dom (strategies m) then m\<lparr>activeStrategy := strategyType\<rparr> else m)"

definition addCustomStrategy :: "'s TradingStrategy \<Rightarrow> 's StrategyManager \<Rightarrow> 's StrategyManager" where
  "addCustomStrategy st m = m\<lparr>strategies := (strategies m)(stype st \<mapsto> st)\<rparr>"

definition getActiveStrategy :: "'s StrategyManager \<Rightarrow> 's TradingStrategy option" where
  "getActiveStrategy m = strategies m (activeStrategy m)"

text \<open>
  The three delegating methods. \<open>Inl\<close> in the result would be an exception leaving the
  method; the \<open>catch\<close> block turns a fault of the strategy into the default value.
\<close>

definition StrategyManager_shouldBuy ::
  "'s StrategyManager \<Rightarrow> market_env \<Rightarrow> 's \<Rightarrow> PumpSwapPoolInfo \<Rightarrow> (js_error + bool) \<times> 's"
where
  "StrategyManager_shouldBuy m env ss poolInfo =
     (case getActiveStrategy m of
        None \<Rightarrow> (Inr False, ss)
      | Some st \<Rightarrow>
          (case shouldBuy st env ss poolInfo of
             (Inr decision, ss') \<Rightarrow> (Inr decision, ss')
           | (Inl error, ss') \<Rightarrow> (Inr False, ss')))"

definition StrategyManager_shouldSell ::
  "'s StrategyManager \<Rightarrow> market_env \<Rightarrow> 's \<Rightarrow> Position \<Rightarrow> jsnum \<Rightarrow> (js_error + bool) \<times> 's"
where
  "StrategyManager_shouldSell m env ss position currentPrice =
     (case getActiveStrategy m of
        None \<Rightarrow> (Inr False, ss)
      | Some st \<Rightarrow>
          (case shouldSell st env ss position currentPrice of
             (Inr decision, ss') \<Rightarrow> (Inr decision, ss')
           | (Inl error, ss') \<Rightarrow> (Inr False, ss')))"

definition StrategyManager_calculatePositionSize ::
  "'s StrategyManager \<Rightarrow> 's \<Rightarrow> PumpSwapPoolInfo \<Rightarrow> (js_error + int) \<times> 's"
where
  "StrategyManager_calculatePositionSize m ss poolInfo =
     (case getActiveStrategy m of
        None \<Rightarrow> (Inr 10000000, ss)
      | Some st \<Rightarrow>
          (case calculatePositionSize st ss poolInfo of
             (Inr sz, ss') \<Rightarrow> (Inr sz, ss')
           | (Inl error, ss') \<Rightarrow> (Inr 10000000, ss')))"

section \<open>PumpSwap client (pumpswap/pumpswap.ts)\<close>

text \<open>
  \<open>getPoolInfo\<close>, \<open>buy\<close> and \<open>sell\<close> talk to the chain and catch every fault themselves:
  each is represented by its response, a snapshot or \<open>null\<close>, a signature or \<open>null\<close>.
  (The decoder of the source leaves both reserves at zero; any snapshot is allowed here.)
\<close>

definition getCurrentPrice :: "PumpSwapPoolInfo option \<Rightarrow> jsnum" where
  "getCurrentPrice fresh =
     (case fresh of
        None \<Rightarrow> Fin 0
      | Some freshPoolInfo \<Rightarrow>
          if baseReserve freshPoolInfo = 0 then Fin 0
          else
            let price = js_div (Number (quoteReserve freshPoolInfo))
                               (Number (baseReserve freshPoolInfo));
                decimalAdjustment =
                  pow10 (int (quoteDecimals freshPoolInfo) - int (baseDecimals freshPoolInfo))
            in js_mul price decimalAdjustment)"

definition hasMinimumLiquidity :: "PumpSwapPoolInfo \<Rightarrow> jsnum \<Rightarrow> bool" where
  "hasMinimumLiquidity poolInfo minLiquidity =
     (let quoteReserveSOL =
            js_div (Number (quoteReserve poolInfo)) (pow10 (int (quoteDecimals poolInfo)))
      in js_ge quoteReserveSOL minLiquidity)"

section \<open>The bot (pumpswap-bot.ts)\<close>

text \<open>
  The configuration is read once at start. The source fixes the ceiling on open positions
  at the constant \<open>MAX_CONCURRENT_POSITIONS\<close>; it is a field here so that other ceilings
  can be stated.
\<close>

record bot_config =
  USE_SNIPE_LIST :: bool
  MIN_POOL_SIZE :: jsnum
  TRADING_STRATEGY :: StrategyType
  maxPositions :: nat

text \<open>
  \<open>activePositions\<close> is a \<open>Map\<close>, which iterates in insertion order: an association list
  with \<open>AList.update\<close> for \<open>set\<close> and \<open>AList.delete\<close> for \<open>delete\<close>.
\<close>

record bot_state =
  existingPools :: "string set"
  activePositions :: "(string \<times> Position) list"
  snipeList :: "string list"
  strategyState :: price_history

definition init_state :: bot_state where
  "init_state =
     \<lparr>existingPools = {}, activePositions = [], snipeList = [], strategyState = Map.empty\<rparr>"

definition strategyManager :: "bot_config \<Rightarrow> price_history StrategyManager" where
  "strategyManager cfg = new_StrategyManager (TRADING_STRATEGY cfg)"

text \<open>The function \<open>shouldBuy\<close> of the bot, which consults the snipe list.\<close>

definition bot_shouldBuy :: "bot_config \<Rightarrow> bot_state \<Rightarrow> string \<Rightarrow> bool" where
  "bot_shouldBuy cfg s mintAddress =
     (if USE_SNIPE_LIST cfg then mintAddress \<in> set (snipeList s) else True)"

text \<open>The responses received by one run of \<open>processPumpSwapPool\<close>, in the order of use.\<close>

record buy_responses =
  pool_resp :: "PumpSwapPoolInfo option"
  market :: market_env
  buy_resp :: "string option"
  fresh_resp :: "PumpSwapPoolInfo option"
  time_resp :: int

text \<open>
  How a run of \<open>processPumpSwapPool\<close> ends: at one of its \<open>return\<close> statements, with a
  failed or a successful buy, or in its own \<open>catch\<close> block.
\<close>

datatype outcome =
    FetchFailed | NotInSnipeList | AlreadyHavePosition | MaxPositionsReached
  | InsufficientLiquidity | StrategyDeclined | BuyFailed | BuySuccessful | ProcessFailed

definition processPumpSwapPool ::
  "bot_config \<Rightarrow> buy_responses \<Rightarrow> bot_state \<Rightarrow> outcome \<times> bot_state"
where
  "processPumpSwapPool cfg r s =
     (case pool_resp r of
        None \<Rightarrow> (FetchFailed, s)
      | Some poolInfo \<Rightarrow>
         (let mintAddress = baseMint poolInfo in
          if \<not> bot_shouldBuy cfg s mintAddress then (NotInSnipeList, s)
          else if mintAddress \<in> fst ` set (activePositions s) then (AlreadyHavePosition, s)
          else if length (activePositions s) \<ge> maxPositions cfg then (MaxPositionsReached, s)
          else if \<not> hasMinimumLiquidity poolInfo (MIN_POOL_SIZE cfg)
          then (InsufficientLiquidity, s)
          else
           (case StrategyManager_shouldBuy (strategyManager cfg) (market r)
                   (strategyState s) poolInfo of
              (Inl e, ss1) \<Rightarrow> (ProcessFailed, s\<lparr>strategyState := ss1\<rparr>)
            | (Inr shouldBuyToken, ss1) \<Rightarrow>
               (if \<not> shouldBuyToken then (StrategyDeclined, s\<lparr>strategyState := ss1\<rparr>)
                else
                 (case StrategyManager_calculatePositionSize (strategyManager cfg) ss1
                         poolInfo of
                    (Inl e, ss2) \<Rightarrow> (ProcessFailed, s\<lparr>strategyState := ss2\<rparr>)
                  | (Inr positionSize, ss2) \<Rightarrow>
                     (case buy_resp r of
                        None \<Rightarrow> (BuyFailed, s\<lparr>strategyState := ss2\<rparr>)
                      | Some signature \<Rightarrow>
                         (if signature = [] then (BuyFailed, s\<lparr>strategyState := ss2\<rparr>)
                          else
                           (let currentPrice = getCurrentPrice (fresh_resp r);
                                position =
                                  \<lparr>mint = baseMint poolInfo,
                                   pos_poolId = poolId poolInfo,
                                   entryPrice = currentPrice,
                                   amount = positionSize,
                                   buyValue = currentPrice,
                                   timestamp = time_resp r,
                                   strategy =
                                     (case getActiveStrategy (strategyManager cfg) of
                                        None \<Rightarrow> MOMENTUM
                                      | Some st \<Rightarrow> stype st)\<rparr>
                            in (BuySuccessful,
                                s\<lparr>strategyState := ss2,
                                  activePositions :=
                                    AList.update mintAddress position
                                      (activePositions s)\<rparr>)))))))))"

text \<open>The responses received for one position during one monitoring tick.\<close>

record sell_responses =
  s_market :: market_env
  s_pool_resp :: "PumpSwapPoolInfo option"
  sell_resp :: "string option"

definition monitor_position ::
  "bot_config \<Rightarrow> sell_responses \<Rightarrow> string \<Rightarrow> Position \<Rightarrow> bot_state \<Rightarrow> bot_state"
where
  "monitor_position cfg r mintAddress position s =
     (case price_resp (s_market r) of
        Inl e \<Rightarrow> s
      | Inr None \<Rightarrow> s
      | Inr (Some currentPrice) \<Rightarrow>
         (if \<not> js_truthy currentPrice then s
          else
           (case StrategyManager_shouldSell (strategyManager cfg) (s_market r)
                   (strategyState s) position currentPrice of
              (Inl e, ss1) \<Rightarrow> s\<lparr>strategyState := ss1\<rparr>
            | (Inr shouldSellToken, ss1) \<Rightarrow>
               (if \<not> shouldSellToken then s\<lparr>strategyState := ss1\<rparr>
                else
                 (case s_pool_resp r of
                    None \<Rightarrow> s\<lparr>strategyState := ss1\<rparr>
                  | Some poolInfo \<Rightarrow>
                     (case sell_resp r of
                        None \<Rightarrow> s\<lparr>strategyState := ss1\<rparr>
                      | Some signature \<Rightarrow>
                         (if signature = [] then s\<lparr>strategyState := ss1\<rparr>
                          else s\<lparr>strategyState := ss1,
                                 activePositions :=
                                   AList.delete mintAddress (activePositions s)\<rparr>)))))))"

text \<open>
  The loop over \<open>activePositions.entries()\<close>: only the entry being visited can be deleted,
  so the entries visited are those present when the tick starts, in their order.
\<close>

fun monitor_loop ::
  "bot_config \<Rightarrow> (string \<Rightarrow> sell_responses) \<Rightarrow> (string \<times> Position) list \<Rightarrow> bot_state
   \<Rightarrow> bot_state"
where
  "monitor_loop cfg f [] s = s"
| "monitor_loop cfg f ((mintAddress, position) # rest) s =
     monitor_loop cfg f rest (monitor_position cfg (f mintAddress) mintAddress position s)"

definition monitorPositions ::
  "bot_config \<Rightarrow> (string \<Rightarrow> sell_responses) \<Rightarrow> bot_state \<Rightarrow> bot_state"
where
  "monitorPositions cfg f s =
     (if length (activePositions s) = 0 then s
      else monitor_loop cfg f (activePositions s) s)"

text \<open>
  The subscription callback of \<open>start\<close>: the membership test and the insertion happen
  before the first \<open>await\<close>, then the pool is processed. The result is the outcome of the
  processing, or nothing when the pool was seen before.
\<close>

definition onProgramAccountChange ::
  "bot_config \<Rightarrow> string \<Rightarrow> buy_responses \<Rightarrow> bot_state \<Rightarrow> outcome option \<times> bot_state"
where
  "onProgramAccountChange cfg key r s =
     (if key \<notin> existingPools s
      then
        (case processPumpSwapPool cfg r (s\<lparr>existingPools := insert key (existingPools s)\<rparr>) of
           (out, s') \<Rightarrow> (Some out, s'))
      else (None, s))"

text \<open>
  What happens to the bot: a pool account is delivered, the monitoring timer fires, or the
  snipe list is reloaded. Each is run to completion before the next one.
\<close>

datatype event =
    Discovery string buy_responses
  | Tick "string \<Rightarrow> sell_responses"
  | LoadSnipeList "string list"

fun step :: "bot_config \<Rightarrow> event \<Rightarrow> bot_state \<Rightarrow> outcome option \<times> bot_state" where
  "step cfg (Discovery key r) s = onProgramAccountChange cfg key r s"
| "step cfg (Tick f) s = (None, monitorPositions cfg f s)"
| "step cfg (LoadSnipeList xs) s = (None, s\<lparr>snipeList := xs\<rparr>)"

fun run :: "bot_config \<Rightarrow> event list \<Rightarrow> bot_state \<Rightarrow> outcome option list \<times> bot_state" where
  "run cfg [] s = ([], s)"
| "run cfg (ev # evs) s =
     (case step cfg ev s of
        (out, s') \<Rightarrow> (case run cfg evs s' of (outs, s'') \<Rightarrow> (out # outs, s'')))"

fun pool_key :: "event \<Rightarrow> string option" where
  "pool_key (Discovery key r) = Some key"
| "pool_key (Tick f) = None"
| "pool_key (LoadSnipeList xs) = None"

text \<open>
  A snapshot read from the chain has unsigned reserves. A state is reachable when the bot
  gets there from its initial state by events whose snapshots are of that kind.
\<close>

definition snapshot_ok :: "PumpSwapPoolInfo option \<Rightarrow> bool" where
  "snapshot_ok resp =
     (case resp of None \<Rightarrow> True | Some p \<Rightarrow> 0 \<le> baseReserve p \<and> 0 \<le> quoteReserve p)"

fun event_ok :: "event \<Rightarrow> bool" where
  "event_ok (Discovery key r) = (snapshot_ok (pool_resp r) \<and> snapshot_ok (fresh_resp r))"
| "event_ok (Tick f) = True"
| "event_ok (LoadSnipeList xs) = True"

inductive reachable :: "bot_config \<Rightarrow> bot_state \<Rightarrow> bool" for cfg :: bot_config where
  reachable_init: "reachable cfg init_state"
| reachable_step: "reachable cfg s \<Longrightarrow> event_ok ev \<Longrightarrow> reachable cfg (snd (step cfg ev s))"

section \<open>Vocabulary of the properties\<close>

text \<open>A result is a finite number within \<open>tol\<close> of \<open>c\<close>.\<close>

fun approximately :: "js_error + jsnum \<Rightarrow> real \<Rightarrow> real \<Rightarrow> bool" where
  "approximately (Inr (Fin v)) c tol = (\<bar>v - c\<bar> \<le> tol)"
| "approximately _ c tol = False"

text \<open>
  The buy signal of the momentum strategy as the specification words it, on the window
  \<open>w\<close> of the most recent prices: at least two points, the change from the oldest to the
  latest point is at least the threshold, and the last step is positive.
\<close>

definition most_recent :: "nat \<Rightarrow> 'a list \<Rightarrow> 'a list" where
  "most_recent n xs = drop (length xs - n) xs"

definition momentum_signal :: "jsnum \<Rightarrow> jsnum list \<Rightarrow> bool" where
  "momentum_signal threshold w =
     (2 \<le> length w
      \<and> js_ge (js_mul (js_div (js_sub (last w) (hd w)) (hd w)) (Fin 100)) threshold
      \<and> js_gt (js_mul (js_div (js_sub (last w) (w ! (length w - 2))) (w ! (length w - 2)))
                 (Fin 100)) (Fin 0))"

text \<open>
  How often the deliveries of the pool \<open>P\<close> among the events \<open>evs\<close> led to processing,
  given the results \<open>outs\<close> of the events.
\<close>

definition processed_count :: "string \<Rightarrow> event list \<Rightarrow> outcome option list \<Rightarrow> nat" where
  "processed_count P evs outs =
     length (filter (\<lambda>(ev, out). pool_key ev = Some P \<and> out \<noteq> None) (zip evs outs))"

text \<open>
  The sell of a position settles during a tick: its price is fetched, the strategy decides
  to sell, the pool is fetched again and \<open>sell\<close> returns a signature.
\<close>

definition sold :: "bot_config \<Rightarrow> sell_responses \<Rightarrow> price_history \<Rightarrow> Position \<Rightarrow> bool" where
  "sold cfg r h position =
     (case price_resp (s_market r) of
        Inr (Some currentPrice) \<Rightarrow>
          js_truthy currentPrice
          \<and> fst (StrategyManager_shouldSell (strategyManager cfg) (s_market r) h position
                   currentPrice) = Inr True
          \<and> s_pool_resp r \<noteq> None
          \<and> (case sell_resp r of Some signature \<Rightarrow> signature \<noteq> [] | None \<Rightarrow> False)
      | _ \<Rightarrow> False)"

text \<open>
  What holds of a position stored under the key \<open>k\<close>: the amount is at least the
  smallest position size, the entry price is a finite number that is not negative, and
  the position records its key and its price twice.
\<close>

definition position_ok :: "string \<Rightarrow> Position \<Rightarrow> bool" where
  "position_ok k p \<longleftrightarrow>
     10000000 \<le> amount p \<and> (\<exists>x. entryPrice p = Fin x \<and> 0 \<le> x)
     \<and> buyValue p = entryPrice p \<and> mint p = k"

section \<open>Example inputs\<close>

definition example_pool :: PumpSwapPoolInfo where
  "example_pool =
     \<lparr>poolId = ''PoolA'', baseMint = ''MintA'', quoteMint = ''WSOL'',
      baseVault = ''VaultA'', quoteVault = ''VaultQ'', lpMint = ''LpA'',
      baseDecimals = 9, quoteDecimals = 9, state = ACTIVE,
      baseReserve = 100000000000, quoteReserve = 100000000000,
      lpSupply = 0, createdAt = 0\<rparr>"

definition example_position :: Position where
  "example_position =
     \<lparr>mint = ''MintA'', pos_poolId = ''PoolA'', entryPrice = Fin 1, amount = 10000000,
      buyValue = Fin 1, timestamp = 0, strategy = MOMENTUM\<rparr>"

definition example_market :: market_env where
  "example_market = \<lparr>price_resp = Inr (Some (Fin (12 / 10))), token_resp = None, now = 1000\<rparr>"

text \<open>A strategy whose three methods throw, registered and made active.\<close>

definition throwing_strategy :: "price_history TradingStrategy" where
  "throwing_strategy =
     \<lparr>stype = CUSTOM,
      shouldBuy = (\<lambda>env h poolInfo. (Inl (Thrown ''fault''), h)),
      shouldSell = (\<lambda>env h position currentPrice. (Inl (Thrown ''fault''), h)),
      calculatePositionSize = (\<lambda>h poolInfo. (Inl (Thrown ''fault''), h))\<rparr>"

definition throwing_manager :: "price_history StrategyManager" where
  "throwing_manager = addCustomStrategy throwing_strategy (new_StrategyManager CUSTOM)"

text \<open>
  A bot with the liquidity strategy, a delivery of the example pool whose buy settles,
  and the responses of a tick in which every sell settles.
\<close>

definition example_config :: bot_config where
  "example_config =
     \<lparr>USE_SNIPE_LIST = False, MIN_POOL_SIZE = Fin 1, TRADING_STRATEGY = LIQUIDITY,
      maxPositions = MAX_CONCURRENT_POSITIONS\<rparr>"

definition example_buy :: buy_responses where
  "example_buy =
     \<lparr>pool_resp = Some example_pool, market = example_market, buy_resp = Some ''sig1'',
      fresh_resp = Some example_pool, time_resp = 1000\<rparr>"

definition example_sell :: sell_responses where
  "example_sell =
     \<lparr>s_market = \<lparr>price_resp = Inr (Some (Fin 2)), token_resp = None, now = 2000\<rparr>,
      s_pool_resp = Some example_pool, sell_resp = Some ''sig2''\<rparr>"

definition example_buy_of :: "string \<Rightarrow> string \<Rightarrow> buy_responses" where
  "example_buy_of pool token =
     example_buy\<lparr>pool_resp := Some (example_pool\<lparr>poolId := pool, baseMint := token\<rparr>),
                 fresh_resp := Some (example_pool\<lparr>poolId := pool, baseMint := token\<rparr>)\<rparr>"

text \<open>The bot with the ceiling 2 after it has opened two positions.\<close>

definition example_two_open :: bot_state where
  "example_two_open =
     snd (run (example_config\<lparr>maxPositions := 2\<rparr>)
            [Discovery ''PoolB'' (example_buy_of ''PoolB'' ''MintB''),
             Discovery ''PoolC'' (example_buy_of ''PoolC'' ''MintC'')] init_state)"

text \<open>The bot after one buy, and after one buy whose price read failed.\<close>

definition example_bought :: bot_state where
  "example_bought = snd (step example_config (Discovery ''PoolA'' example_buy) init_state)"

definition example_bought_unpriced :: bot_state where
  "example_bought_unpriced =
     snd (step example_config (Discovery ''PoolA'' (example_buy\<lparr>fresh_resp := None\<rparr>))
            init_state)"

section \<open>Properties of the strategies\<close>

subsection \<open>Price impact\<close>

text \<open>
  Claim C3, as stated: for \<open>reserveIn = reserveOut = 1_000_000_000\<close> and
  \<open>amountIn = 100_000_000\<close> the price impact is about 9.06 percent. It is not: the
  result is further than 0.1 from 9.06. (\<open>amountOut\<close> is 90702432 and \<open>exactQuote\<close> is
  100000000.)
\<close>

theorem price_impact_counterexample:
  "\<not> approximately (calculatePriceImpact 100000000 1000000000 1000000000) (906 / 100) (1 / 10)"
  by (simp add: calculatePriceImpact_def bigint_div_def bigint_quot_def Number_def)

text \<open>
  Claim C3, amended: for these inputs the price impact is 9.297568, that is 9.30 percent
  to two decimal places.
\<close>

theorem price_impact_example:
  "calculatePriceImpact 100000000 1000000000 1000000000 = Inr (Fin (9297568 / 1000000))
   \<and> approximately (calculatePriceImpact 100000000 1000000000 1000000000)
        (930 / 100) (5 / 1000)"
  by (simp add: calculatePriceImpact_def bigint_div_def bigint_quot_def Number_def)

subsection \<open>Position sizes\<close>

text \<open>
  Claim C9, as stated: every strategy keeps the position size below a configured maximum.
  The momentum strategy does not: on a quote reserve of \<open>10^14\<close> its size is \<open>10^12\<close>, above
  the maxima of the other two strategies and above every size limit of constants.ts.
\<close>

theorem momentum_size_counterexample:
  "\<not> MomentumStrategy_calculatePositionSize (example_pool\<lparr>quoteReserve := 100000000000000\<rparr>)
      \<le> 10000000000"
  by (simp add: MomentumStrategy_calculatePositionSize_def bigint_quot_def example_pool_def)

text \<open>
  Claim C9, amended: the size computed by each strategy depends on the quote reserve
  only and is at least 10_000_000. The volume strategy keeps it at most 1_000_000_000 and
  the liquidity strategy at most 500_000_000. The momentum strategy has no upper bound:
  its size is the larger of a hundredth of the quote reserve and 10_000_000.
\<close>

theorem position_size_bounds:
  "(quoteReserve p = quoteReserve q \<longrightarrow>
      MomentumStrategy_calculatePositionSize p = MomentumStrategy_calculatePositionSize q
      \<and> VolumeStrategy_calculatePositionSize p = VolumeStrategy_calculatePositionSize q
      \<and> LiquidityStrategy_calculatePositionSize p = LiquidityStrategy_calculatePositionSize q)
   \<and> MomentumStrategy_calculatePositionSize p = max (quoteReserve p div 100) 10000000
   \<and> (\<forall>M. \<exists>p'. M < MomentumStrategy_calculatePositionSize p')
   \<and> 10000000 \<le> VolumeStrategy_calculatePositionSize p
   \<and> VolumeStrategy_calculatePositionSize p \<le> 1000000000
   \<and> 10000000 \<le> LiquidityStrategy_calculatePositionSize p
   \<and> LiquidityStrategy_calculatePositionSize p \<le> 500000000"
proof -
  have det: "quoteReserve p = quoteReserve q \<longrightarrow>
      MomentumStrategy_calculatePositionSize p = MomentumStrategy_calculatePositionSize q
      \<and> VolumeStrategy_calculatePositionSize p = VolumeStrategy_calculatePositionSize q
      \<and> LiquidityStrategy_calculatePositionSize p = LiquidityStrategy_calculatePositionSize q"
    by (simp add: MomentumStrategy_calculatePositionSize_def
        VolumeStrategy_calculatePositionSize_def LiquidityStrategy_calculatePositionSize_def)
  have mom: "MomentumStrategy_calculatePositionSize r = max (quoteReserve r div 100) 10000000"
    for r
  proof (cases "0 \<le> quoteReserve r")
    case True
    then have "bigint_quot (quoteReserve r) 100 = quoteReserve r div 100"
      by (cases "quoteReserve r = 0") (simp_all add: bigint_quot_def)
    then show ?thesis
      by (simp add: MomentumStrategy_calculatePositionSize_def Let_def)
  next
    case False
    then have "bigint_quot (quoteReserve r) 100 \<le> 0" and "quoteReserve r div 100 \<le> 0"
      by (simp_all add: bigint_quot_def)
    then show ?thesis
      by (simp add: MomentumStrategy_calculatePositionSize_def Let_def)
  qed
  have unb: "\<exists>p'. M < MomentumStrategy_calculatePositionSize p'" for M
  proof
    show "M < MomentumStrategy_calculatePositionSize (p\<lparr>quoteReserve := 100 * (\<bar>M\<bar> + 1)\<rparr>)"
      by (simp add: mom)
  qed
  have vol: "10000000 \<le> VolumeStrategy_calculatePositionSize p
      \<and> VolumeStrategy_calculatePositionSize p \<le> 1000000000"
    by (simp add: VolumeStrategy_calculatePositionSize_def Let_def)
  have liq: "10000000 \<le> LiquidityStrategy_calculatePositionSize p
      \<and> LiquidityStrategy_calculatePositionSize p \<le> 500000000"
    by (simp add: LiquidityStrategy_calculatePositionSize_def Let_def)
  show ?thesis using det mom unb vol liq by blast
qed

text \<open>Two snapshots with the same quote reserve and different base reserves.\<close>

theorem position_size_bounds_witness:
  "quoteReserve example_pool = quoteReserve (example_pool\<lparr>baseReserve := 7\<rparr>)
   \<and> MomentumStrategy_calculatePositionSize example_pool
       = MomentumStrategy_calculatePositionSize (example_pool\<lparr>baseReserve := 7\<rparr>)
   \<and> MomentumStrategy_calculatePositionSize example_pool = 1000000000
   \<and> VolumeStrategy_calculatePositionSize example_pool = 1000000000
   \<and> LiquidityStrategy_calculatePositionSize example_pool = 500000000"
  using position_size_bounds [of example_pool "example_pool\<lparr>baseReserve := 7\<rparr>"]
  by (simp add: example_pool_def VolumeStrategy_calculatePositionSize_def
      LiquidityStrategy_calculatePositionSize_def bigint_quot_def)

subsection \<open>Momentum: selling\<close>

lemma slice_neg_3: "slice_neg 3 (xs @ [a, b, c]) = [a, b, c]"
  by (simp add: slice_neg_def)

lemma last_three:
  assumes "3 \<le> length xs"
  shows "\<exists>ys a b c. xs = ys @ [a, b, c]"
proof -
  have three: "\<exists>a b c. zs = [a, b, c]" if "length zs = 3" for zs :: "'a list"
    using that by (auto simp: numeral_3_eq_3 length_Suc_conv)
  have "length (drop (length xs - 3) xs) = 3" using assms by simp
  then obtain a b c where "drop (length xs - 3) xs = [a, b, c]"
    using three by blast
  then have "xs = take (length xs - 3) xs @ [a, b, c]"
    by (metis append_take_drop_id)
  then show ?thesis by blast
qed

lemma downtrend_iff:
  "(3 \<le> length xs \<and> every_below_previous (slice_neg 3 xs))
     \<longleftrightarrow> (\<exists>ys p1 p2 p3. xs = ys @ [p1, p2, p3] \<and> js_lt p2 p1 \<and> js_lt p3 p2)"
proof
  assume L: "3 \<le> length xs \<and> every_below_previous (slice_neg 3 xs)"
  then obtain ys a b c where xs: "xs = ys @ [a, b, c]" using last_three by blast
  with L have "every_below_previous [a, b, c]" by (simp add: slice_neg_3)
  then show "\<exists>ys p1 p2 p3. xs = ys @ [p1, p2, p3] \<and> js_lt p2 p1 \<and> js_lt p3 p2"
    using xs by auto
next
  assume "\<exists>ys p1 p2 p3. xs = ys @ [p1, p2, p3] \<and> js_lt p2 p1 \<and> js_lt p3 p2"
  then obtain ys p1 p2 p3 where xs: "xs = ys @ [p1, p2, p3]" and d: "js_lt p2 p1" "js_lt p3 p2"
    by blast
  show "3 \<le> length xs \<and> every_below_previous (slice_neg 3 xs)"
    using d by (simp add: xs slice_neg_3)
qed

text \<open>
  Claim C8: with take-profit 50 and stop-loss 30, a position bought at 1.0 is sold at the
  price 1.5. At the price 1.49 it is sold exactly when the last three recorded prices of
  its token are strictly decreasing; so it is not sold when no such history exists.
\<close>

theorem momentum_take_profit:
  assumes "buyValue position = Fin 1"
    and "m_takeProfitPercent c = Fin 50" and "m_stopLossPercent c = Fin 30"
  shows "MomentumStrategy_shouldSell c h position (Fin (15 / 10))
    \<and> (MomentumStrategy_shouldSell c h position (Fin (149 / 100))
        \<longleftrightarrow> (\<exists>ys p1 p2 p3. history_of h (mint position) = ys @ [p1, p2, p3]
                \<and> js_lt p2 p1 \<and> js_lt p3 p2))"
proof -
  have A: "MomentumStrategy_shouldSell c h position (Fin (15 / 10))"
    using assms by (simp add: MomentumStrategy_shouldSell_def percent_change_def js_ge_def)
  have B: "MomentumStrategy_shouldSell c h position (Fin (149 / 100))
      \<longleftrightarrow> (3 \<le> length (history_of h (mint position))
           \<and> every_below_previous (slice_neg 3 (history_of h (mint position))))"
    using assms
    by (auto simp add: MomentumStrategy_shouldSell_def percent_change_def js_ge_def js_gt_def
        Let_def)
  show ?thesis using A B downtrend_iff by simp
qed

theorem momentum_take_profit_witness:
  "buyValue example_position = Fin 1
   \<and> m_takeProfitPercent momentum_default = Fin 50
   \<and> m_stopLossPercent momentum_default = Fin 30
   \<and> MomentumStrategy_shouldSell momentum_default Map.empty example_position (Fin (15 / 10))
   \<and> \<not> MomentumStrategy_shouldSell momentum_default Map.empty example_position
         (Fin (149 / 100))"
  using momentum_take_profit [of example_position momentum_default Map.empty]
  by (simp add: example_position_def momentum_default_def history_of_def)

subsection \<open>Momentum: buying\<close>

lemma slice_neg_pos: "0 < n \<Longrightarrow> slice_neg n xs = most_recent (nat n) xs"
  by (simp add: slice_neg_def most_recent_def nat_diff_distrib' max_def)

lemma most_recent_short: "length xs \<le> n \<Longrightarrow> most_recent n xs = xs"
  by (simp add: most_recent_def)

lemma most_recent_last: "0 < n \<Longrightarrow> xs \<noteq> [] \<Longrightarrow> last (most_recent n xs) = last xs"
  by (simp add: most_recent_def)

text \<open>On finite prices other than zero the signal is the formula over the reals.\<close>

lemma momentum_signal_finite:
  assumes "0 \<notin> set w"
  shows "momentum_signal (Fin t) (map Fin w) \<longleftrightarrow>
     2 \<le> length w \<and> (last w - hd w) / hd w * 100 \<ge> t
     \<and> (last w - w ! (length w - 2)) / (w ! (length w - 2)) * 100 > 0"
proof (cases "2 \<le> length w")
  case False
  then show ?thesis by (simp add: momentum_signal_def)
next
  case True
  then have ne: "w \<noteq> []" by auto
  have h0: "hd w \<noteq> 0" using ne assms by (metis hd_in_set)
  have n0: "w ! (length w - 2) \<noteq> 0" using True assms
    by (metis diff_less nth_mem length_greater_0_conv ne zero_less_numeral)
  have n1: "map Fin w ! (length w - 2) = Fin (w ! (length w - 2))"
    using True by (simp add: ne)
  show ?thesis using True h0 n0 ne
    by (simp add: momentum_signal_def last_map hd_map n1 js_ge_def js_gt_def)
qed

text \<open>
  Claim C7: when the current price is available, the momentum strategy appends it to the
  history of the token, keeps the \<open>lookbackPeriod\<close> most recent points (5 by default) and
  answers with the buy signal on that window: at least two points, the change from the
  oldest to the latest at least the threshold, and a positive last step. When the price
  is unavailable (the lookup throws, or returns nothing, zero or NaN) it answers false and
  records nothing.
\<close>

theorem momentum_should_buy:
  assumes "0 < lookbackPeriod c"
  shows "(price_resp env = Inr (Some cp) \<and> js_truthy cp \<longrightarrow>
           MomentumStrategy_shouldBuy c env h p =
             (momentum_signal (momentumThreshold c)
                (most_recent (nat (lookbackPeriod c)) (history_of h (baseMint p) @ [cp])),
              h(baseMint p \<mapsto>
                most_recent (nat (lookbackPeriod c)) (history_of h (baseMint p) @ [cp]))))
       \<and> ((\<forall>x. price_resp env = Inr (Some x) \<longrightarrow> \<not> js_truthy x) \<longrightarrow>
           MomentumStrategy_shouldBuy c env h p = (False, h))"
proof (intro conjI impI)
  assume A: "price_resp env = Inr (Some cp) \<and> js_truthy cp"
  define xs where "xs = history_of h (baseMint p) @ [cp]"
  define w where "w = most_recent (nat (lookbackPeriod c)) xs"
  have win: "(if int (length xs) > lookbackPeriod c then slice_neg (lookbackPeriod c) xs else xs)
      = w"
    using assms by (simp add: w_def slice_neg_pos most_recent_short)
  have lastw: "last w = cp"
    using assms by (simp add: w_def most_recent_last xs_def)
  define G where "G history =
      (if length history < 2 then (False, h(baseMint p \<mapsto> history))
       else if js_ge (percent_change cp (history ! 0)) (momentumThreshold c)
       then (js_gt (percent_change cp (history ! (length history - 2))) (Fin 0),
             h(baseMint p \<mapsto> history))
       else (False, h(baseMint p \<mapsto> history)))" for history
  have step1: "MomentumStrategy_shouldBuy c env h p =
      G (if int (length xs) > lookbackPeriod c then slice_neg (lookbackPeriod c) xs else xs)"
    using A by (simp add: MomentumStrategy_shouldBuy_def Let_def G_def xs_def)
  have step2: "G w = (momentum_signal (momentumThreshold c) w, h(baseMint p \<mapsto> w))"
  proof (cases "length w < 2")
    case True
    then show ?thesis by (simp add: G_def momentum_signal_def)
  next
    case False
    then have "w \<noteq> []" by auto
    then have hdw: "hd w = w ! 0" by (simp add: hd_conv_nth)
    show ?thesis using False
      by (simp add: G_def momentum_signal_def percent_change_def lastw hdw)
  qed
  have "MomentumStrategy_shouldBuy c env h p =
      (momentum_signal (momentumThreshold c) w, h(baseMint p \<mapsto> w))"
    by (simp only: step1 win step2)
  then show "MomentumStrategy_shouldBuy c env h p =
             (momentum_signal (momentumThreshold c)
                (most_recent (nat (lookbackPeriod c)) (history_of h (baseMint p) @ [cp])),
              h(baseMint p \<mapsto>
                most_recent (nat (lookbackPeriod c)) (history_of h (baseMint p) @ [cp])))"
    by (simp add: w_def xs_def)
next
  assume "\<forall>x. price_resp env = Inr (Some x) \<longrightarrow> \<not> js_truthy x"
  then show "MomentumStrategy_shouldBuy c env h p = (False, h)"
    by (auto simp: MomentumStrategy_shouldBuy_def Let_def split: sum.splits option.splits)
qed

text \<open>
  A token seen at 1.0 and now at 1.2 is bought (a rise of 20 percent); with no price the
  answer is false.
\<close>

theorem momentum_should_buy_witness:
  "0 < lookbackPeriod momentum_default
   \<and> price_resp example_market = Inr (Some (Fin (12 / 10))) \<and> js_truthy (Fin (12 / 10))
   \<and> MomentumStrategy_shouldBuy momentum_default example_market
        [''MintA'' \<mapsto> [Fin 1]] example_pool
       = (True, [''MintA'' \<mapsto> [Fin 1, Fin (12 / 10)]])
   \<and> price_resp (example_market\<lparr>price_resp := Inr None\<rparr>) = Inr None
   \<and> MomentumStrategy_shouldBuy momentum_default (example_market\<lparr>price_resp := Inr None\<rparr>)
        [''MintA'' \<mapsto> [Fin 1]] example_pool
       = (False, [''MintA'' \<mapsto> [Fin 1]])"
  using momentum_should_buy [of momentum_default example_market "Fin (12 / 10)"
      "[''MintA'' \<mapsto> [Fin 1]]" example_pool]
    momentum_should_buy [of momentum_default "example_market\<lparr>price_resp := Inr None\<rparr>"
      "Fin 1" "[''MintA'' \<mapsto> [Fin 1]]" example_pool]
  by (simp add: momentum_default_def example_market_def example_pool_def history_of_def
      most_recent_def momentum_signal_def js_ge_def js_gt_def)

section \<open>Properties of the strategy manager\<close>

text \<open>
  Claim C5: when the active strategy throws in \<open>shouldBuy\<close> or \<open>shouldSell\<close>, the manager
  returns false; when it throws in \<open>calculatePositionSize\<close>, the manager returns
  10_000_000. No exception leaves any of the three methods of the manager.
\<close>

theorem manager_fail_closed:
  assumes "getActiveStrategy m = Some st"
  shows "(fst (shouldBuy st env ss poolInfo) = Inl e \<longrightarrow>
            fst (StrategyManager_shouldBuy m env ss poolInfo) = Inr False)
       \<and> (fst (shouldSell st env ss position currentPrice) = Inl e \<longrightarrow>
            fst (StrategyManager_shouldSell m env ss position currentPrice) = Inr False)
       \<and> (fst (calculatePositionSize st ss poolInfo) = Inl e \<longrightarrow>
            fst (StrategyManager_calculatePositionSize m ss poolInfo) = Inr 10000000)
       \<and> fst (StrategyManager_shouldBuy m env ss poolInfo) \<noteq> Inl e'
       \<and> fst (StrategyManager_shouldSell m env ss position currentPrice) \<noteq> Inl e'
       \<and> fst (StrategyManager_calculatePositionSize m ss poolInfo) \<noteq> Inl e'"
  using assms
  by (auto simp: StrategyManager_shouldBuy_def StrategyManager_shouldSell_def
      StrategyManager_calculatePositionSize_def split: prod.splits sum.splits)

lemma throwing_active: "getActiveStrategy throwing_manager = Some throwing_strategy"
  by (simp add: throwing_manager_def addCustomStrategy_def new_StrategyManager_def
      getActiveStrategy_def throwing_strategy_def)

theorem manager_fail_closed_witness:
  "getActiveStrategy throwing_manager = Some throwing_strategy
   \<and> fst (shouldBuy throwing_strategy example_market Map.empty example_pool)
       = Inl (Thrown ''fault'')
   \<and> fst (StrategyManager_shouldBuy throwing_manager example_market Map.empty example_pool)
       = Inr False
   \<and> fst (shouldSell throwing_strategy example_market Map.empty example_position (Fin 2))
       = Inl (Thrown ''fault'')
   \<and> fst (StrategyManager_shouldSell throwing_manager example_market Map.empty
            example_position (Fin 2)) = Inr False
   \<and> fst (calculatePositionSize throwing_strategy Map.empty example_pool)
       = Inl (Thrown ''fault'')
   \<and> fst (StrategyManager_calculatePositionSize throwing_manager Map.empty example_pool)
       = Inr 10000000"
  using manager_fail_closed [OF throwing_active, of example_market Map.empty example_pool
      "Thrown ''fault''" example_position "Fin 2"]
  by (simp add: throwing_active throwing_strategy_def)

subsection \<open>The manager of the bot\<close>

lemma getActive_builtin:
  "getActiveStrategy (strategyManager cfg) =
     (case TRADING_STRATEGY cfg of
        MOMENTUM \<Rightarrow> Some (MomentumStrategy momentum_default)
      | VOLUME \<Rightarrow> Some (VolumeStrategy volume_default)
      | LIQUIDITY \<Rightarrow> Some (LiquidityStrategy liquidity_default)
      | CUSTOM \<Rightarrow> None)"
  by (simp add: strategyManager_def new_StrategyManager_def getActiveStrategy_def
      initializeStrategies_def split: StrategyType.splits)

lemma builtin_shouldSell:
  "StrategyManager_shouldSell (strategyManager cfg) env h position currentPrice =
     (Inr (case TRADING_STRATEGY cfg of
             MOMENTUM \<Rightarrow> MomentumStrategy_shouldSell momentum_default h position currentPrice
           | VOLUME \<Rightarrow> VolumeStrategy_shouldSell volume_default env position currentPrice
           | LIQUIDITY \<Rightarrow>
               LiquidityStrategy_shouldSell liquidity_default env position currentPrice
           | CUSTOM \<Rightarrow> False), h)"
  by (simp add: StrategyManager_shouldSell_def getActive_builtin MomentumStrategy_def
      VolumeStrategy_def LiquidityStrategy_def split: StrategyType.splits)

lemma builtin_shouldBuy:
  "StrategyManager_shouldBuy (strategyManager cfg) env h poolInfo =
     (case TRADING_STRATEGY cfg of
        MOMENTUM \<Rightarrow> (Inr (fst (MomentumStrategy_shouldBuy momentum_default env h poolInfo)),
                     snd (MomentumStrategy_shouldBuy momentum_default env h poolInfo))
      | VOLUME \<Rightarrow> (Inr (VolumeStrategy_shouldBuy volume_default env poolInfo), h)
      | LIQUIDITY \<Rightarrow> (Inr (LiquidityStrategy_shouldBuy liquidity_default env poolInfo), h)
      | CUSTOM \<Rightarrow> (Inr False, h))"
  by (simp add: StrategyManager_shouldBuy_def getActive_builtin MomentumStrategy_def
      VolumeStrategy_def LiquidityStrategy_def split: StrategyType.splits prod.splits)

lemma builtin_calculatePositionSize:
  "StrategyManager_calculatePositionSize (strategyManager cfg) h poolInfo =
     (Inr (case TRADING_STRATEGY cfg of
             MOMENTUM \<Rightarrow> MomentumStrategy_calculatePositionSize poolInfo
           | VOLUME \<Rightarrow> VolumeStrategy_calculatePositionSize poolInfo
           | LIQUIDITY \<Rightarrow> LiquidityStrategy_calculatePositionSize poolInfo
           | CUSTOM \<Rightarrow> 10000000), h)"
  by (simp add: StrategyManager_calculatePositionSize_def getActive_builtin MomentumStrategy_def
      VolumeStrategy_def LiquidityStrategy_def split: StrategyType.splits)

subsection \<open>Positions without a buy value\<close>

lemma falsy_never_sold:
  assumes "buyValue position = Fin 0 \<or> buyValue position = NaN \<or> currentPrice = Fin 0"
  shows "\<not> MomentumStrategy_shouldSell mc h position currentPrice"
    and "\<not> VolumeStrategy_shouldSell vc env position currentPrice"
    and "\<not> LiquidityStrategy_shouldSell lc env position currentPrice"
  using assms
  by (auto simp: MomentumStrategy_shouldSell_def VolumeStrategy_shouldSell_def
      LiquidityStrategy_shouldSell_def)

text \<open>
  Claim C10: for a position whose buy value is falsy (zero or NaN), and for any position
  at the current price zero, \<open>shouldSell\<close> of the three strategies is false whatever the
  thresholds, the price history, the market data and the clock are. So the manager of the
  bot answers false, and the monitoring step leaves the position in the book.
\<close>

theorem falsy_buy_value_never_sold:
  assumes "buyValue position = Fin 0 \<or> buyValue position = NaN \<or> currentPrice = Fin 0"
  shows "\<not> MomentumStrategy_shouldSell mc h position currentPrice
    \<and> \<not> VolumeStrategy_shouldSell vc env position currentPrice
    \<and> \<not> LiquidityStrategy_shouldSell lc env position currentPrice
    \<and> StrategyManager_shouldSell (strategyManager cfg) env h position currentPrice
         = (Inr False, h)
    \<and> (price_resp (s_market r) = Inr (Some currentPrice) \<longrightarrow>
         monitor_position cfg r mintAddress position s = s)"
proof -
  note F = falsy_never_sold [OF assms]
  have M: "StrategyManager_shouldSell (strategyManager cfg) env' h' position currentPrice
         = (Inr False, h')" for env' h'
    by (simp add: builtin_shouldSell F split: StrategyType.splits)
  have "monitor_position cfg r mintAddress position s = s"
    if "price_resp (s_market r) = Inr (Some currentPrice)"
    using that by (simp add: monitor_position_def M)
  then show ?thesis using F M by simp
qed

text \<open>
  A position with the buy value 0, seen at the price 2 with a strictly falling history,
  collapsed volume and a day of holding time; a tick whose sell would settle leaves the
  state as it is.
\<close>

theorem falsy_buy_value_never_sold_witness:
  "buyValue (example_position\<lparr>buyValue := Fin 0\<rparr>) = Fin 0
   \<and> \<not> MomentumStrategy_shouldSell momentum_default [''MintA'' \<mapsto> [Fin 3, Fin 2, Fin 1]]
         (example_position\<lparr>buyValue := Fin 0\<rparr>) (Fin 2)
   \<and> \<not> VolumeStrategy_shouldSell volume_default
         (example_market\<lparr>now := 86400000,
            token_resp := Some \<lparr>volume_h24 = None, volume_h6 = Some (Fin 600),
              volume_h1 = None, liquidity_usd = None, priceChange_h1 = None\<rparr>\<rparr>)
         (example_position\<lparr>buyValue := Fin 0\<rparr>) (Fin 2)
   \<and> \<not> LiquidityStrategy_shouldSell liquidity_default
         (example_market\<lparr>now := 86400000,
            token_resp := Some \<lparr>volume_h24 = None, volume_h6 = Some (Fin 600),
              volume_h1 = None, liquidity_usd = None, priceChange_h1 = None\<rparr>\<rparr>)
         (example_position\<lparr>buyValue := Fin 0\<rparr>) (Fin 2)
   \<and> price_resp (s_market example_sell) = Inr (Some (Fin 2))
   \<and> monitor_position example_config example_sell ''MintA''
         (example_position\<lparr>buyValue := Fin 0\<rparr>) init_state = init_state"
  using falsy_buy_value_never_sold [where position = "example_position\<lparr>buyValue := Fin 0\<rparr>"
      and currentPrice = "Fin 2" and mc = momentum_default
      and h = "[''MintA'' \<mapsto> [Fin 3, Fin 2, Fin 1]]" and vc = volume_default
      and env = "example_market\<lparr>now := 86400000,
            token_resp := Some \<lparr>volume_h24 = None, volume_h6 = Some (Fin 600),
              volume_h1 = None, liquidity_usd = None, priceChange_h1 = None\<rparr>\<rparr>"
      and lc = liquidity_default and cfg = example_config and r = example_sell
      and mintAddress = "''MintA''" and s = init_state]
  by (simp add: example_position_def example_sell_def)

section \<open>Properties of the bot\<close>

subsection \<open>Pool discovery\<close>

lemma process_existingPools:
  "existingPools (snd (processPumpSwapPool cfg r s)) = existingPools s"
  by (simp add: processPumpSwapPool_def Let_def split: option.splits prod.splits sum.splits)

lemma monitor_position_existingPools:
  "existingPools (monitor_position cfg r k p s) = existingPools s"
  by (simp add: monitor_position_def split: option.splits prod.splits sum.splits)

lemma monitor_loop_existingPools:
  "existingPools (monitor_loop cfg f ps s) = existingPools s"
  by (induction ps arbitrary: s) (auto simp: monitor_position_existingPools)

lemma monitorPositions_existingPools:
  "existingPools (monitorPositions cfg f s) = existingPools s"
  by (simp add: monitorPositions_def monitor_loop_existingPools)

lemma step_existingPools:
  "existingPools (snd (step cfg ev s)) = existingPools s \<union> set_option (pool_key ev)"
  by (cases ev)
    (auto simp: onProgramAccountChange_def process_existingPools monitorPositions_existingPools
      split_beta)

lemma step_processed:
  "fst (step cfg ev s) \<noteq> None \<longleftrightarrow> (\<exists>k. pool_key ev = Some k \<and> k \<notin> existingPools s)"
  by (cases ev) (auto simp: onProgramAccountChange_def split_beta)

lemma run_length: "length (fst (run cfg evs s)) = length evs"
  by (induction evs arbitrary: s) (auto simp: split_beta)

lemma run_Cons:
  "fst (run cfg (ev # evs) s) = fst (step cfg ev s) # fst (run cfg evs (snd (step cfg ev s)))"
  by (simp add: split_beta)

lemma run_processed:
  "i < length evs \<Longrightarrow>
     fst (run cfg evs s) ! i \<noteq> None \<longleftrightarrow>
       (\<exists>k. pool_key (evs ! i) = Some k \<and> k \<notin> existingPools s
            \<and> Some k \<notin> pool_key ` set (take i evs))"
proof (induction evs arbitrary: i s)
  case Nil
  then show ?case by simp
next
  case (Cons ev evs)
  show ?case
  proof (cases i)
    case 0
    then show ?thesis by (simp only: run_Cons nth_Cons_0 step_processed) simp
  next
    case (Suc j)
    then have j: "j < length evs" using Cons.prems by simp
    have "fst (run cfg (ev # evs) s) ! i = fst (run cfg evs (snd (step cfg ev s))) ! j"
      by (simp only: run_Cons Suc nth_Cons_Suc)
    then show ?thesis
      using Cons.IH [OF j, of "snd (step cfg ev s)"] Suc
      by (auto simp: step_existingPools)
  qed
qed

lemma run_count:
  "processed_count P evs (fst (run cfg evs s)) =
     (if Some P \<in> pool_key ` set evs \<and> P \<notin> existingPools s then 1 else 0)"
proof (induction evs arbitrary: s)
  case Nil
  then show ?case by (simp add: processed_count_def)
next
  case (Cons ev evs)
  have unfold: "processed_count P (ev # evs) (fst (run cfg (ev # evs) s)) =
      (if pool_key ev = Some P \<and> fst (step cfg ev s) \<noteq> None then 1 else 0)
      + processed_count P evs (fst (run cfg evs (snd (step cfg ev s))))"
    by (simp only: run_Cons) (simp add: processed_count_def)
  show ?case
    unfolding unfold Cons.IH step_existingPools step_processed
    by (cases "pool_key ev") auto
qed

text \<open>
  Claim C1: in a run of the bot from its start, whatever the events are, the deliveries
  of a pool \<open>P\<close> lead to processing exactly once when \<open>P\<close> is delivered at all, and the
  delivery that is processed is the first one: the event at position \<open>i\<close> is processed
  exactly when it delivers a pool that no earlier event delivered.
\<close>

theorem pool_processed_once:
  "processed_count P evs (fst (run cfg evs init_state))
     = (if Some P \<in> pool_key ` set evs then 1 else 0)
   \<and> (i < length evs \<longrightarrow>
        (fst (run cfg evs init_state) ! i \<noteq> None \<longleftrightarrow>
           (\<exists>k. pool_key (evs ! i) = Some k \<and> Some k \<notin> pool_key ` set (take i evs))))"
  using run_count [of P evs cfg init_state] run_processed [of i evs cfg init_state]
  by (simp add: init_state_def)

text \<open>The pool is delivered, the timer fires, the pool is delivered again.\<close>

theorem pool_processed_once_witness:
  "(2::nat) < length [Discovery ''PoolA'' example_buy, Tick (\<lambda>k. example_sell),
                      Discovery ''PoolA'' example_buy]
   \<and> processed_count ''PoolA''
        [Discovery ''PoolA'' example_buy, Tick (\<lambda>k. example_sell),
         Discovery ''PoolA'' example_buy]
        (fst (run example_config
           [Discovery ''PoolA'' example_buy, Tick (\<lambda>k. example_sell),
            Discovery ''PoolA'' example_buy] init_state)) = 1
   \<and> fst (run example_config
           [Discovery ''PoolA'' example_buy, Tick (\<lambda>k. example_sell),
            Discovery ''PoolA'' example_buy] init_state) ! 2 = None"
  using pool_processed_once [of "''PoolA''"
      "[Discovery ''PoolA'' example_buy, Tick (\<lambda>k. example_sell),
        Discovery ''PoolA'' example_buy]" example_config 2]
  by (simp add: numeral_2_eq_2)

subsection \<open>The buy path\<close>

lemma strategy_decision_cases:
  "\<exists>b h'. StrategyManager_shouldBuy (strategyManager cfg) env h poolInfo = (Inr b, h')"
  by (cases "TRADING_STRATEGY cfg") (auto simp: builtin_shouldBuy)

text \<open>Rules that evaluate the bot on the example inputs.\<close>

lemmas eval_simps =
  processPumpSwapPool_def onProgramAccountChange_def bot_shouldBuy_def hasMinimumLiquidity_def
  builtin_shouldBuy builtin_calculatePositionSize getActive_builtin builtin_shouldSell
  LiquidityStrategy_shouldBuy_def LiquidityStrategy_shouldSell_def
  LiquidityStrategy_calculatePositionSize_def LiquidityStrategy_def
  calculatePriceImpact_def bigint_div_def bigint_quot_def Number_def pow10_def percent_change_def
  js_ge_def js_gt_def getCurrentPrice_def liquidity_default_def MAX_CONCURRENT_POSITIONS_def
  monitorPositions_def monitor_position_def
  example_config_def example_buy_def example_sell_def example_pool_def example_market_def
  example_position_def init_state_def Let_def example_buy_of_def

lemma example_two_open_eq:
  "example_two_open =
     \<lparr>existingPools = {''PoolB'', ''PoolC''},
      activePositions =
        [(''MintB'', example_position\<lparr>mint := ''MintB'', pos_poolId := ''PoolB'',
             amount := 500000000, timestamp := 1000, strategy := LIQUIDITY\<rparr>),
         (''MintC'', example_position\<lparr>mint := ''MintC'', pos_poolId := ''PoolC'',
             amount := 500000000, timestamp := 1000, strategy := LIQUIDITY\<rparr>)],
      snipeList = [], strategyState = Map.empty\<rparr>"
  by (auto simp add: example_two_open_def eval_simps)

lemma example_bought_eq:
  "example_bought =
     \<lparr>existingPools = {''PoolA''},
      activePositions =
        [(''MintA'', example_position\<lparr>amount := 500000000, timestamp := 1000,
             strategy := LIQUIDITY\<rparr>)],
      snipeList = [], strategyState = Map.empty\<rparr>"
  by (simp add: example_bought_def eval_simps)

lemma example_bought_unpriced_eq:
  "example_bought_unpriced =
     \<lparr>existingPools = {''PoolA''},
      activePositions =
        [(''MintA'', example_position\<lparr>entryPrice := Fin 0, amount := 500000000,
             buyValue := Fin 0, timestamp := 1000, strategy := LIQUIDITY\<rparr>)],
      snipeList = [], strategyState = Map.empty\<rparr>"
  by (simp add: example_bought_unpriced_def eval_simps)

lemma example_bought_reachable: "reachable example_config example_bought"
  unfolding example_bought_def
  by (rule reachable_step [OF reachable_init])
    (simp add: snapshot_ok_def example_buy_def example_pool_def)

lemma example_bought_unpriced_reachable: "reachable example_config example_bought_unpriced"
  unfolding example_bought_unpriced_def
  by (rule reachable_step [OF reachable_init])
    (simp add: snapshot_ok_def example_buy_def example_pool_def)

text \<open>
  Claim C4, as stated: a token that already holds a position is skipped for that reason
  before the allow-list is consulted. It is not. Here the allow-list is active; the token
  is bought while it is on the list, the list is then emptied, and a second pool of the
  same token is delivered: the token holds a position, and the pool is skipped because
  the token is not on the list.
\<close>

theorem buy_gates_counterexample:
  "fst (run (example_config\<lparr>USE_SNIPE_LIST := True\<rparr>)
     [LoadSnipeList [''MintA''], Discovery ''PoolA'' example_buy, LoadSnipeList [],
      Discovery ''PoolB'' (example_buy_of ''PoolB'' ''MintA'')]
     init_state) = [None, Some BuySuccessful, None, Some NotInSnipeList]
   \<and> map fst (activePositions (snd (run (example_config\<lparr>USE_SNIPE_LIST := True\<rparr>)
     [LoadSnipeList [''MintA''], Discovery ''PoolA'' example_buy, LoadSnipeList []]
     init_state))) = [''MintA'']"
  by (simp add: eval_simps)

text \<open>
  Claim C4, amended: once the pool is fetched, the gates are checked in this order, the
  first that fails ending the evaluation: (1) the allow-list is active and the token is
  absent, (2) the token has an open position, (3) the number of open positions has
  reached the ceiling, (4) the liquidity of the snapshot is below the floor, (5) the
  strategy declines. A pool skipped at one of the gates 1 to 4 leaves the whole state as
  it was, the state of the strategies included; a pool that the strategy declines leaves
  the positions as they were. With the ceiling 2 and two open positions, a further token
  that passes the allow-list is skipped at the ceiling, whatever the strategy would say.
\<close>

theorem buy_gates_in_order:
  assumes "pool_resp r = Some poolInfo"
  shows
    "(fst (processPumpSwapPool cfg r s) = NotInSnipeList
        \<longleftrightarrow> \<not> bot_shouldBuy cfg s (baseMint poolInfo))
   \<and> (fst (processPumpSwapPool cfg r s) = AlreadyHavePosition
        \<longleftrightarrow> bot_shouldBuy cfg s (baseMint poolInfo)
            \<and> baseMint poolInfo \<in> fst ` set (activePositions s))
   \<and> (fst (processPumpSwapPool cfg r s) = MaxPositionsReached
        \<longleftrightarrow> bot_shouldBuy cfg s (baseMint poolInfo)
            \<and> baseMint poolInfo \<notin> fst ` set (activePositions s)
            \<and> maxPositions cfg \<le> length (activePositions s))
   \<and> (fst (processPumpSwapPool cfg r s) = InsufficientLiquidity
        \<longleftrightarrow> bot_shouldBuy cfg s (baseMint poolInfo)
            \<and> baseMint poolInfo \<notin> fst ` set (activePositions s)
            \<and> length (activePositions s) < maxPositions cfg
            \<and> \<not> hasMinimumLiquidity poolInfo (MIN_POOL_SIZE cfg))
   \<and> (fst (processPumpSwapPool cfg r s) = StrategyDeclined
        \<longleftrightarrow> bot_shouldBuy cfg s (baseMint poolInfo)
            \<and> baseMint poolInfo \<notin> fst ` set (activePositions s)
            \<and> length (activePositions s) < maxPositions cfg
            \<and> hasMinimumLiquidity poolInfo (MIN_POOL_SIZE cfg)
            \<and> fst (StrategyManager_shouldBuy (strategyManager cfg) (market r)
                     (strategyState s) poolInfo) = Inr False)
   \<and> (fst (processPumpSwapPool cfg r s)
          \<in> {NotInSnipeList, AlreadyHavePosition, MaxPositionsReached, InsufficientLiquidity}
        \<longrightarrow> snd (processPumpSwapPool cfg r s) = s)
   \<and> (fst (processPumpSwapPool cfg r s) = StrategyDeclined
        \<longrightarrow> activePositions (snd (processPumpSwapPool cfg r s)) = activePositions s)
   \<and> (maxPositions cfg = 2 \<and> length (activePositions s) = 2
        \<and> bot_shouldBuy cfg s (baseMint poolInfo)
        \<and> baseMint poolInfo \<notin> fst ` set (activePositions s)
        \<longrightarrow> processPumpSwapPool cfg r s = (MaxPositionsReached, s))"
proof -
  obtain b h' where D: "StrategyManager_shouldBuy (strategyManager cfg) (market r)
      (strategyState s) poolInfo = (Inr b, h')"
    using strategy_decision_cases by blast
  obtain n h'' where S: "StrategyManager_calculatePositionSize (strategyManager cfg) h' poolInfo
      = (Inr n, h'')"
    by (simp add: builtin_calculatePositionSize)
  show ?thesis
    using assms D S
    by (auto simp: processPumpSwapPool_def Let_def split: option.splits if_splits)
qed

text \<open>
  After two buys under the ceiling 2 the example pool, whose buy would settle, is skipped
  at the ceiling. With the momentum strategy the first sight of a token is declined.
\<close>

theorem buy_gates_in_order_witness:
  "pool_resp example_buy = Some example_pool
   \<and> maxPositions (example_config\<lparr>maxPositions := 2\<rparr>) = 2
   \<and> length (activePositions example_two_open) = 2
   \<and> bot_shouldBuy (example_config\<lparr>maxPositions := 2\<rparr>) example_two_open
        (baseMint example_pool)
   \<and> baseMint example_pool \<notin> fst ` set (activePositions example_two_open)
   \<and> processPumpSwapPool (example_config\<lparr>maxPositions := 2\<rparr>) example_buy example_two_open
       = (MaxPositionsReached, example_two_open)
   \<and> fst (processPumpSwapPool (example_config\<lparr>TRADING_STRATEGY := MOMENTUM\<rparr>) example_buy
            init_state) = StrategyDeclined
   \<and> activePositions (snd (processPumpSwapPool
            (example_config\<lparr>TRADING_STRATEGY := MOMENTUM\<rparr>) example_buy init_state)) = []"
  using buy_gates_in_order [of example_buy example_pool "example_config\<lparr>maxPositions := 2\<rparr>"
      example_two_open]
    buy_gates_in_order [of example_buy example_pool
      "example_config\<lparr>TRADING_STRATEGY := MOMENTUM\<rparr>" init_state]
  by (simp add: example_two_open_eq example_buy_def example_pool_def bot_shouldBuy_def
      example_config_def init_state_def hasMinimumLiquidity_def Number_def pow10_def js_ge_def
      builtin_shouldBuy MomentumStrategy_shouldBuy_def momentum_default_def example_market_def
      history_of_def MAX_CONCURRENT_POSITIONS_def)

subsection \<open>The positions of a reachable state\<close>

lemma getCurrentPrice_nonneg:
  assumes "snapshot_ok fresh"
  shows "\<exists>x. getCurrentPrice fresh = Fin x \<and> 0 \<le> x"
proof (cases fresh)
  case None
  then show ?thesis by (simp add: getCurrentPrice_def)
next
  case (Some f)
  show ?thesis
  proof (cases "baseReserve f = 0")
    case True
    then show ?thesis using Some by (simp add: getCurrentPrice_def)
  next
    case False
    have q: "0 \<le> quoteReserve f" and b: "0 < baseReserve f"
      using assms Some False by (auto simp: snapshot_ok_def)
    show ?thesis using Some False q b
      by (auto simp: getCurrentPrice_def Number_def pow10_def Let_def)
  qed
qed

lemma builtin_size_floor:
  "\<exists>n h'. StrategyManager_calculatePositionSize (strategyManager cfg) h poolInfo = (Inr n, h')
      \<and> 10000000 \<le> n"
proof -
  have "10000000 \<le> MomentumStrategy_calculatePositionSize poolInfo"
    by (simp add: MomentumStrategy_calculatePositionSize_def Let_def)
  moreover have "10000000 \<le> VolumeStrategy_calculatePositionSize poolInfo"
    by (simp add: VolumeStrategy_calculatePositionSize_def Let_def)
  moreover have "10000000 \<le> LiquidityStrategy_calculatePositionSize poolInfo"
    by (simp add: LiquidityStrategy_calculatePositionSize_def Let_def)
  ultimately show ?thesis
    by (cases "TRADING_STRATEGY cfg") (auto simp: builtin_calculatePositionSize)
qed

lemma update_fresh:
  "k \<notin> fst ` set al \<Longrightarrow> AList.update k v al = al @ [(k, v)]"
  by (induction al) auto

text \<open>A run of \<open>processPumpSwapPool\<close> leaves the book as it is or appends one position.\<close>

lemma process_positions:
  assumes "snapshot_ok (fresh_resp r)"
  shows "activePositions (snd (processPumpSwapPool cfg r s)) = activePositions s
    \<or> (\<exists>k p. position_ok k p \<and> k \<notin> fst ` set (activePositions s)
          \<and> activePositions (snd (processPumpSwapPool cfg r s)) = activePositions s @ [(k, p)])"
proof (cases "pool_resp r")
  case None
  then show ?thesis by (simp add: processPumpSwapPool_def)
next
  case (Some poolInfo)
  obtain b h' where D: "StrategyManager_shouldBuy (strategyManager cfg) (market r)
      (strategyState s) poolInfo = (Inr b, h')"
    using strategy_decision_cases by blast
  obtain n h'' where S: "StrategyManager_calculatePositionSize (strategyManager cfg) h' poolInfo
      = (Inr n, h'')" and n: "10000000 \<le> n"
    using builtin_size_floor by blast
  obtain x where P: "getCurrentPrice (fresh_resp r) = Fin x" "0 \<le> x"
    using getCurrentPrice_nonneg [OF assms] by blast
  show ?thesis
    using Some D S n P
    by (auto simp: processPumpSwapPool_def Let_def position_ok_def update_fresh
        split: option.splits if_splits)
qed

text \<open>The position stored by a successful buy carries the price read after the buy.\<close>

lemma bought_position:
  assumes "fst (processPumpSwapPool cfg r s) = BuySuccessful"
    and "pool_resp r = Some poolInfo"
  shows "\<exists>p. map_of (activePositions (snd (processPumpSwapPool cfg r s))) (baseMint poolInfo)
              = Some p
          \<and> entryPrice p = getCurrentPrice (fresh_resp r)"
proof -
  obtain b h' where D: "StrategyManager_shouldBuy (strategyManager cfg) (market r)
      (strategyState s) poolInfo = (Inr b, h')"
    using strategy_decision_cases by blast
  obtain n h'' where S: "StrategyManager_calculatePositionSize (strategyManager cfg) h' poolInfo
      = (Inr n, h'')"
    by (simp add: builtin_calculatePositionSize)
  show ?thesis
    using assms D S
    by (auto simp: processPumpSwapPool_def Let_def AList.update_conv'
        split: option.splits if_splits)
qed

subsection \<open>The monitoring tick\<close>

lemma monitor_position_eq:
  "monitor_position cfg r k p s =
     (if sold cfg r (strategyState s) p
      then s\<lparr>activePositions := AList.delete k (activePositions s)\<rparr> else s)"
  by (auto simp: monitor_position_def sold_def builtin_shouldSell
      split: sum.splits option.splits)

lemma monitor_loop_eq:
  "monitor_loop cfg f ps s =
     s\<lparr>activePositions :=
         filter (\<lambda>(k, p). k \<notin> fst ` set (filter (\<lambda>(k', p'). sold cfg (f k') (strategyState s) p')
                                        ps))
           (activePositions s)\<rparr>"
proof (induction ps arbitrary: s)
  case Nil
  then show ?case by simp
next
  case (Cons kp ps)
  obtain k p where kp: "kp = (k, p)" by (cases kp)
  show ?case
  proof (cases "sold cfg (f k) (strategyState s) p")
    case True
    have E: "AList.delete k A = filter (\<lambda>x. fst x \<noteq> k) A"
      for A :: "(string \<times> Position) list"
      by (induction A) auto
    show ?thesis
      using True kp
      by (simp add: Cons.IH monitor_position_eq E split_beta)
  next
    case False
    then show ?thesis
      using kp by (simp add: Cons.IH monitor_position_eq)
  qed
qed

lemma monitorPositions_eq:
  "monitorPositions cfg f s =
     s\<lparr>activePositions :=
         filter (\<lambda>(k, p). k \<notin> fst ` set (filter (\<lambda>(k', p'). sold cfg (f k') (strategyState s) p')
                                        (activePositions s)))
           (activePositions s)\<rparr>"
  by (cases "activePositions s = []") (simp_all add: monitorPositions_def monitor_loop_eq)

lemma monitorPositions_subset:
  "set (activePositions (monitorPositions cfg f s)) \<subseteq> set (activePositions s)"
  by (auto simp: monitorPositions_eq)

lemma monitorPositions_distinct:
  "distinct (map fst (activePositions s)) \<Longrightarrow>
   distinct (map fst (activePositions (monitorPositions cfg f s)))"
  by (simp add: monitorPositions_eq distinct_map_filter)

subsection \<open>Invariant of the position book\<close>

lemma step_positions:
  assumes "event_ok ev" and "\<forall>(k, p) \<in> set (activePositions s). position_ok k p"
    and "distinct (map fst (activePositions s))"
  shows "(\<forall>(k, p) \<in> set (activePositions (snd (step cfg ev s))). position_ok k p)
    \<and> distinct (map fst (activePositions (snd (step cfg ev s))))"
proof (cases ev)
  case (Discovery key r)
  let ?s' = "s\<lparr>existingPools := insert key (existingPools s)\<rparr>"
  have ok: "snapshot_ok (fresh_resp r)" using assms(1) Discovery by simp
  have "activePositions ?s' = activePositions s" by simp
  with process_positions [OF ok, of cfg ?s'] assms(2,3) Discovery
  show ?thesis
    by (auto simp: onProgramAccountChange_def split_beta)
next
  case (Tick f)
  then show ?thesis
    using assms(2,3) monitorPositions_subset [of cfg f s] monitorPositions_distinct [of s cfg f]
    by auto
next
  case (LoadSnipeList xs)
  then show ?thesis using assms(2,3) by simp
qed

text \<open>Every stored position is well formed, and no token has two positions.\<close>

lemma reachable_positions:
  "reachable cfg s \<Longrightarrow>
     (\<forall>(k, p) \<in> set (activePositions s). position_ok k p)
     \<and> distinct (map fst (activePositions s))"
proof (induction rule: reachable.induct)
  case reachable_init
  then show ?case by (simp add: init_state_def)
next
  case (reachable_step s ev)
  then show ?case using step_positions by blast
qed

text \<open>
  Claim C2, as stated: every position of a reachable state has a positive amount and a
  positive entry price, also when the price read after the buy fails. The entry price is
  not positive then: after one buy whose price read fails, the book holds a position with
  the entry price 0.
\<close>

theorem entry_price_counterexample:
  "reachable example_config example_bought_unpriced
   \<and> activePositions example_bought_unpriced =
       [(''MintA'', example_position\<lparr>entryPrice := Fin 0, amount := 500000000,
            buyValue := Fin 0, timestamp := 1000, strategy := LIQUIDITY\<rparr>)]
   \<and> \<not> js_gt (entryPrice (example_position\<lparr>entryPrice := Fin 0, amount := 500000000,
            buyValue := Fin 0, timestamp := 1000, strategy := LIQUIDITY\<rparr>)) (Fin 0)"
  using example_bought_unpriced_reachable
  by (simp add: example_bought_unpriced_eq js_gt_def)

text \<open>
  Claim C2, amended: every position of a reachable state has a positive amount (at least
  10_000_000) and an entry price that is not negative. A successful buy stores the price
  read after it, and that price is 0 when the read fails or the refreshed pool has a zero
  base reserve.
\<close>

theorem position_amount_and_price:
  assumes "reachable cfg s" and "(k, p) \<in> set (activePositions s)"
  shows "0 < amount p \<and> 10000000 \<le> amount p
    \<and> (\<exists>x. entryPrice p = Fin x \<and> 0 \<le> x)
    \<and> (fst (processPumpSwapPool cfg r s') = BuySuccessful \<and> pool_resp r = Some poolInfo
        \<longrightarrow> (\<exists>p'. map_of (activePositions (snd (processPumpSwapPool cfg r s')))
                     (baseMint poolInfo) = Some p'
                \<and> entryPrice p' = getCurrentPrice (fresh_resp r)))
    \<and> getCurrentPrice None = Fin 0
    \<and> (baseReserve fresh = 0 \<longrightarrow> getCurrentPrice (Some fresh) = Fin 0)"
proof -
  have "position_ok k p" using reachable_positions [OF assms(1)] assms(2) by auto
  then have A: "0 < amount p \<and> 10000000 \<le> amount p \<and> (\<exists>x. entryPrice p = Fin x \<and> 0 \<le> x)"
    by (auto simp: position_ok_def)
  have B: "getCurrentPrice None = Fin 0
      \<and> (baseReserve fresh = 0 \<longrightarrow> getCurrentPrice (Some fresh) = Fin 0)"
    by (simp add: getCurrentPrice_def)
  show ?thesis using A B bought_position by blast
qed

text \<open>The state after one buy with a successful price read.\<close>

theorem position_amount_and_price_witness:
  "reachable example_config example_bought
   \<and> (''MintA'', example_position\<lparr>amount := 500000000, timestamp := 1000,
          strategy := LIQUIDITY\<rparr>) \<in> set (activePositions example_bought)
   \<and> 0 < amount (example_position\<lparr>amount := 500000000, timestamp := 1000,
          strategy := LIQUIDITY\<rparr>)
   \<and> entryPrice (example_position\<lparr>amount := 500000000, timestamp := 1000,
          strategy := LIQUIDITY\<rparr>) = Fin 1
   \<and> fst (processPumpSwapPool example_config (example_buy\<lparr>fresh_resp := None\<rparr>) init_state)
       = BuySuccessful
   \<and> pool_resp (example_buy\<lparr>fresh_resp := None\<rparr>) = Some example_pool
   \<and> map_of (activePositions (snd (processPumpSwapPool example_config
          (example_buy\<lparr>fresh_resp := None\<rparr>) init_state))) (baseMint example_pool)
       = Some (example_position\<lparr>entryPrice := Fin 0, amount := 500000000,
            buyValue := Fin 0, timestamp := 1000, strategy := LIQUIDITY\<rparr>)
   \<and> baseReserve (example_pool\<lparr>baseReserve := 0\<rparr>) = 0
   \<and> getCurrentPrice (Some (example_pool\<lparr>baseReserve := 0\<rparr>)) = Fin 0"
  using example_bought_reachable
    position_amount_and_price [where cfg = example_config and s = example_bought
      and k = "''MintA''"
      and p = "example_position\<lparr>amount := 500000000, timestamp := 1000,
                 strategy := LIQUIDITY\<rparr>"
      and r = "example_buy\<lparr>fresh_resp := None\<rparr>" and s' = init_state
      and poolInfo = example_pool and fresh = "example_pool\<lparr>baseReserve := 0\<rparr>"]
  by (simp add: example_bought_eq eval_simps)

text \<open>
  Claim C6: a monitoring tick on a book without duplicate keys removes exactly the
  positions whose sell settles, and changes nothing else: a position stays, unchanged
  and once, when its price cannot be fetched, when the strategy declines, when the pool
  cannot be fetched again, or when \<open>sell\<close> returns no signature; a position whose sell
  settles is gone.
\<close>

theorem monitor_removes_settled_only:
  assumes "distinct (map fst (activePositions s))"
  shows "monitorPositions cfg f s =
       s\<lparr>activePositions :=
           filter (\<lambda>(k, p). \<not> sold cfg (f k) (strategyState s) p) (activePositions s)\<rparr>
    \<and> distinct (map fst (activePositions (monitorPositions cfg f s)))
    \<and> ((k, p) \<in> set (activePositions s)
        \<and> ((\<forall>cp. price_resp (s_market (f k)) = Inr (Some cp) \<longrightarrow>
                \<not> js_truthy cp
                \<or> fst (StrategyManager_shouldSell (strategyManager cfg) (s_market (f k))
                         (strategyState s) p cp) = Inr False)
           \<or> s_pool_resp (f k) = None \<or> sell_resp (f k) = None)
        \<longrightarrow> (k, p) \<in> set (activePositions (monitorPositions cfg f s)))
    \<and> ((k, p) \<in> set (activePositions s) \<and> sold cfg (f k) (strategyState s) p
        \<longrightarrow> k \<notin> fst ` set (activePositions (monitorPositions cfg f s)))"
proof -
  let ?A = "activePositions s"
  let ?Q = "\<lambda>(k', p'). sold cfg (f k') (strategyState s) p'"
  have key: "(k' \<in> fst ` set (filter ?Q ?A)) = sold cfg (f k') (strategyState s) p'"
    if "(k', p') \<in> set ?A" for k' p'
  proof
    assume "k' \<in> fst ` set (filter ?Q ?A)"
    then obtain p'' where m: "(k', p'') \<in> set ?A" and q: "sold cfg (f k') (strategyState s) p''"
      by auto
    have "p'' = p'" using assms m that by (rule eq_key_imp_eq_value)
    then show "sold cfg (f k') (strategyState s) p'" using q by simp
  next
    assume "sold cfg (f k') (strategyState s) p'"
    then show "k' \<in> fst ` set (filter ?Q ?A)" using that by force
  qed
  have F: "filter (\<lambda>(k, p). k \<notin> fst ` set (filter ?Q ?A)) ?A
      = filter (\<lambda>(k, p). \<not> sold cfg (f k) (strategyState s) p) ?A"
  proof (rule filter_cong [OF refl])
    fix x assume x: "x \<in> set ?A"
    obtain k' p' where kp: "x = (k', p')" by (cases x)
    have "(k' \<in> fst ` set (filter ?Q ?A)) = sold cfg (f k') (strategyState s) p'"
      using x kp key by blast
    then show "(case x of (k, p) \<Rightarrow> k \<notin> fst ` set (filter ?Q ?A))
        = (case x of (k, p) \<Rightarrow> \<not> sold cfg (f k) (strategyState s) p)"
      by (simp only: kp prod.case)
  qed
  have eq: "monitorPositions cfg f s =
       s\<lparr>activePositions :=
           filter (\<lambda>(k, p). \<not> sold cfg (f k) (strategyState s) p) ?A\<rparr>"
    by (simp only: monitorPositions_eq F)
  have dist: "distinct (map fst (activePositions (monitorPositions cfg f s)))"
    using assms by (rule monitorPositions_distinct)
  have stay: "(k, p) \<in> set (activePositions (monitorPositions cfg f s))"
    if "(k, p) \<in> set ?A"
      and "(\<forall>cp. price_resp (s_market (f k)) = Inr (Some cp) \<longrightarrow>
                \<not> js_truthy cp
                \<or> fst (StrategyManager_shouldSell (strategyManager cfg) (s_market (f k))
                         (strategyState s) p cp) = Inr False)
           \<or> s_pool_resp (f k) = None \<or> sell_resp (f k) = None"
  proof -
    have "\<not> sold cfg (f k) (strategyState s) p"
      using that(2) by (auto simp: sold_def split: sum.splits option.splits)
    then show ?thesis using that(1) by (simp add: eq)
  qed
  have gone: "k \<notin> fst ` set (activePositions (monitorPositions cfg f s))"
    if "(k, p) \<in> set ?A" and "sold cfg (f k) (strategyState s) p"
  proof
    assume "k \<in> fst ` set (activePositions (monitorPositions cfg f s))"
    then obtain p'' where m: "(k, p'') \<in> set ?A"
      and q: "\<not> sold cfg (f k) (strategyState s) p''"
      by (auto simp: eq)
    have "p'' = p" using assms m that(1) by (rule eq_key_imp_eq_value)
    then show False using q that(2) by simp
  qed
  show ?thesis using eq dist stay gone by blast
qed

text \<open>
  Two open positions; the sell of the first settles and the sell of the second fails.
\<close>

theorem monitor_removes_settled_only_witness:
  "distinct (map fst (activePositions example_two_open))
   \<and> sell_resp (example_sell\<lparr>sell_resp := None\<rparr>) = None
   \<and> sold example_config example_sell (strategyState example_two_open)
        (example_position\<lparr>mint := ''MintB'', pos_poolId := ''PoolB'',
             amount := 500000000, timestamp := 1000, strategy := LIQUIDITY\<rparr>)
   \<and> activePositions
       (monitorPositions example_config
          (\<lambda>k. if k = ''MintB'' then example_sell else example_sell\<lparr>sell_resp := None\<rparr>)
          example_two_open)
       = [(''MintC'', example_position\<lparr>mint := ''MintC'', pos_poolId := ''PoolC'',
             amount := 500000000, timestamp := 1000, strategy := LIQUIDITY\<rparr>)]"
  using monitor_removes_settled_only [of example_two_open example_config
      "\<lambda>k. if k = ''MintB'' then example_sell else example_sell\<lparr>sell_resp := None\<rparr>"
      "''MintC''"
      "example_position\<lparr>mint := ''MintC'', pos_poolId := ''PoolC'',
             amount := 500000000, timestamp := 1000, strategy := LIQUIDITY\<rparr>"]
  by (simp add: example_two_open_eq sold_def builtin_shouldSell
      LiquidityStrategy_shouldSell_def liquidity_default_def percent_change_def js_ge_def
      example_sell_def example_position_def example_config_def)

end
